theory Spec2Isabelle
  imports Main "HOL-Library.Word" "HOL-Library.AList"
begin

unbundle bit_operations_syntax

section \<open>Bytes, little-endian integers and Go slices\<close>

type_synonym byte = "8 word"
type_synonym u16 = "16 word"
type_synonym u32 = "32 word"
type_synonym u64 = "64 word"

text \<open>A Go \<^verbatim>\<open>[]byte\<close> and a Go \<^verbatim>\<open>string\<close> are both byte sequences.\<close>

type_synonym bytes = "byte list"

text \<open>
  A run-time panic of the Go program (index or slice bounds out of range, nil pointer
  dereference, an explicit \<^verbatim>\<open>panic(...)\<close>), a loop or a channel send that never
  returns, and a loop counter that wraps around at \<open>2^64\<close>.
\<close>

datatype fault = IndexOutOfRange | NilDereference | ExplicitPanic | Diverges | CounterWrapped

text \<open>
  \<^verbatim>\<open>binary.LittleEndian.PutUintNN\<close> writes the value byte by byte, lowest byte first;
  \<^verbatim>\<open>UintNN\<close> reads the first NN/8 bytes back and panics on a shorter slice.
\<close>

fun le_put :: "nat \<Rightarrow> 'a::len word \<Rightarrow> bytes" where
  "le_put 0 v = []"
| "le_put (Suc k) v = ucast v # le_put k (drop_bit 8 v)"

fun le_get :: "bytes \<Rightarrow> 'a::len word" where
  "le_get [] = 0"
| "le_get (b # bs) = ucast b OR push_bit 8 (le_get bs)"

definition PutUint16 :: "u16 \<Rightarrow> bytes" where
  "PutUint16 v = le_put 2 v"

definition PutUint32 :: "u32 \<Rightarrow> bytes" where
  "PutUint32 v = le_put 4 v"

definition PutUint64 :: "u64 \<Rightarrow> bytes" where
  "PutUint64 v = le_put 8 v"

definition Uint16 :: "bytes \<Rightarrow> fault + u16" where
  "Uint16 b = (if length b < 2 then Inl IndexOutOfRange else Inr (le_get (take 2 b)))"

definition Uint32 :: "bytes \<Rightarrow> fault + u32" where
  "Uint32 b = (if length b < 4 then Inl IndexOutOfRange else Inr (le_get (take 4 b)))"

definition Uint64 :: "bytes \<Rightarrow> fault + u64" where
  "Uint64 b = (if length b < 8 then Inl IndexOutOfRange else Inr (le_get (take 8 b)))"

text \<open>
  \<^verbatim>\<open>copy(dst, src)\<close> into a zeroed destination of \<open>k\<close> bytes: the first
  \<open>min k (len src)\<close> bytes of \<open>src\<close>, zeros after.
\<close>

definition copy_zeroed :: "nat \<Rightarrow> bytes \<Rightarrow> bytes" where
  "copy_zeroed k src = take k src @ replicate (k - length src) 0"

text \<open>
  \<^verbatim>\<open>copy(buf[wi:], src)\<close>: overwrites \<open>buf\<close> from offset \<open>wi\<close> with as much of
  \<open>src\<close> as fits.
\<close>

definition copy_at :: "bytes \<Rightarrow> nat \<Rightarrow> bytes \<Rightarrow> bytes" where
  "copy_at buf wi src =
     (let k = min (length buf - wi) (length src)
      in take wi buf @ take k src @ drop (wi + k) buf)"

text \<open>
  A slice expression \<^verbatim>\<open>msg[lo:hi]\<close> is legal when \<open>lo \<le> hi \<le> cap(msg)\<close>. A slice
  is modelled by its bytes \<open>msg\<close> together with the bytes \<open>spare\<close> that lie between its
  length and its capacity.
\<close>

definition slice_of :: "bytes \<Rightarrow> bytes \<Rightarrow> nat \<Rightarrow> nat \<Rightarrow> fault + bytes" where
  "slice_of msg spare lo hi =
     (if hi < lo then Inl IndexOutOfRange
      else if length msg + length spare < hi then Inl IndexOutOfRange
      else Inr (take (hi - lo) (drop lo (msg @ spare))))"

section \<open>Wire formats\<close>

definition idLen :: nat where
  "idLen = 8"

text \<open>\<^verbatim>\<open>EntryType\<close> is a \<^verbatim>\<open>uint8\<close> with six named values.\<close>

type_synonym EntryType = byte

definition EntryNormal :: EntryType where "EntryNormal = 0"
definition EntrySnapshot :: EntryType where "EntrySnapshot = 1"
definition EntryPeerState :: EntryType where "EntryPeerState = 2"
definition EntryAddPeer :: EntryType where "EntryAddPeer = 3"
definition EntryRemovePeer :: EntryType where "EntryRemovePeer = 4"
definition EntryLeaderTransfer :: EntryType where "EntryLeaderTransfer = 5"

text \<open>
  \<^verbatim>\<open>Entry{Type, Data}\<close>. \<open>Data\<close> is a Go slice: \<open>DataSpare\<close> holds the bytes
  between its length and its capacity (an entry decoded from a message shares the
  message's buffer, so these are the bytes that follow the entry in it). They are not
  part of the entry's value and are never encoded.
\<close>

record Entry =
  Type :: EntryType
  Data :: bytes
  DataSpare :: bytes

record appendEntry =
  ae_leader :: bytes
  ae_term :: u64
  ae_commit :: u64
  ae_pterm :: u64
  ae_pindex :: u64
  ae_entries :: "Entry list"
  ae_reply :: string
  ae_buf :: "bytes option"

definition appendEntryBaseLen :: nat where
  "appendEntryBaseLen = idLen + 4 * 8 + 2"

text \<open>
  \<^verbatim>\<open>appendEntry.encode\<close>: the buffer is allocated with exactly the length that is
  written, and the writes are at consecutive offsets, so the result is the concatenation
  of the pieces. The entry count is converted to \<^verbatim>\<open>uint16\<close> and each entry length
  (data plus the type byte) to \<^verbatim>\<open>uint32\<close>, both truncating.
\<close>

definition encodeEntry :: "Entry \<Rightarrow> bytes" where
  "encodeEntry e = PutUint32 (of_nat (length (Data e) + 1)) @ [Type e] @ Data e"

definition ae_encode :: "appendEntry \<Rightarrow> bytes" where
  "ae_encode ae =
     copy_zeroed idLen (ae_leader ae) @
     PutUint64 (ae_term ae) @ PutUint64 (ae_commit ae) @
     PutUint64 (ae_pterm ae) @ PutUint64 (ae_pindex ae) @
     PutUint16 (of_nat (length (ae_entries ae))) @
     concat (map encodeEntry (ae_entries ae))"

text \<open>
  The entry loop of \<^verbatim>\<open>decodeAppendEntry\<close>, \<open>k\<close> iterations left, read offset \<open>ri\<close>.
  Every slice and index expression of the source is a bounds check here.
\<close>

fun decodeEntries :: "nat \<Rightarrow> nat \<Rightarrow> bytes \<Rightarrow> bytes \<Rightarrow> fault + Entry list" where
  "decodeEntries 0 ri msg spare = Inr []"
| "decodeEntries (Suc k) ri msg spare =
     (if length msg < ri then Inl IndexOutOfRange
      else case Uint32 (drop ri msg) of
        Inl f \<Rightarrow> Inl f
      | Inr w \<Rightarrow>
          (let le = unat w; ri' = ri + 4 in
           if length msg \<le> ri' then Inl IndexOutOfRange
           else case slice_of msg spare (ri' + 1) (ri' + le) of
             Inl f \<Rightarrow> Inl f
           | Inr d \<Rightarrow>
               (case decodeEntries k (ri' + le) msg spare of
                  Inl f \<Rightarrow> Inl f
                | Inr es \<Rightarrow>
                    Inr (\<lparr>Type = msg ! ri', Data = d,
                          DataSpare = drop (ri' + le) (msg @ spare)\<rparr> # es))))"

definition decodeAppendEntry :: "bytes \<Rightarrow> bytes \<Rightarrow> string \<Rightarrow> fault + appendEntry option" where
  "decodeAppendEntry msg spare reply =
     (if length msg < appendEntryBaseLen then Inr None
      else case decodeEntries (unat (le_get (take 2 (drop 40 msg)) :: u16)) 42 msg spare of
        Inl f \<Rightarrow> Inl f
      | Inr es \<Rightarrow>
          Inr (Some \<lparr>ae_leader = take idLen msg,
                     ae_term = le_get (take 8 (drop 8 msg)),
                     ae_commit = le_get (take 8 (drop 16 msg)),
                     ae_pterm = le_get (take 8 (drop 24 msg)),
                     ae_pindex = le_get (take 8 (drop 32 msg)),
                     ae_entries = es,
                     ae_reply = reply,
                     ae_buf = Some msg\<rparr>))"

record appendEntryResponse =
  ar_term :: u64
  ar_index :: u64
  ar_peer :: bytes
  ar_success :: bool
  ar_reply :: string

definition appendEntryResponseLen :: nat where
  "appendEntryResponseLen = 24 + 1"

definition ar_encode :: "appendEntryResponse \<Rightarrow> bytes" where
  "ar_encode ar =
     PutUint64 (ar_term ar) @ PutUint64 (ar_index ar) @ copy_zeroed idLen (ar_peer ar) @
     [if ar_success ar then 1 else 0]"

definition decodeAppendEntryResponse :: "bytes \<Rightarrow> appendEntryResponse option" where
  "decodeAppendEntryResponse msg =
     (if length msg \<noteq> appendEntryResponseLen then None
      else Some \<lparr>ar_term = le_get (take 8 msg),
                 ar_index = le_get (take 8 (drop 8 msg)),
                 ar_peer = take idLen (drop 16 msg),
                 ar_success = (msg ! 24 = 1),
                 ar_reply = []\<rparr>)"

record voteRequest =
  vr_term :: u64
  vr_lastTerm :: u64
  vr_lastIndex :: u64
  vr_candidate :: bytes
  vr_reply :: string

definition voteRequestLen :: nat where
  "voteRequestLen = 24 + idLen"

definition vr_encode :: "voteRequest \<Rightarrow> bytes" where
  "vr_encode vr =
     PutUint64 (vr_term vr) @ PutUint64 (vr_lastTerm vr) @ PutUint64 (vr_lastIndex vr) @
     copy_zeroed idLen (vr_candidate vr)"

definition decodeVoteRequest :: "bytes \<Rightarrow> string \<Rightarrow> voteRequest option" where
  "decodeVoteRequest msg reply =
     (if length msg \<noteq> voteRequestLen then None
      else Some \<lparr>vr_term = le_get (take 8 msg),
                 vr_lastTerm = le_get (take 8 (drop 8 msg)),
                 vr_lastIndex = le_get (take 8 (drop 16 msg)),
                 vr_candidate = take idLen (drop 24 msg),
                 vr_reply = reply\<rparr>)"

record voteResponse =
  vresp_term :: u64
  vresp_peer :: bytes
  vresp_granted :: bool

definition voteResponseLen :: nat where
  "voteResponseLen = 8 + 8 + 1"

definition vresp_encode :: "voteResponse \<Rightarrow> bytes" where
  "vresp_encode vr =
     PutUint64 (vresp_term vr) @ copy_zeroed idLen (vresp_peer vr) @
     [if vresp_granted vr then 1 else 0]"

definition decodeVoteResponse :: "bytes \<Rightarrow> voteResponse option" where
  "decodeVoteResponse msg =
     (if length msg \<noteq> voteResponseLen then None
      else Some \<lparr>vresp_term = le_get (take 8 msg),
                 vresp_peer = take 8 (drop 8 msg),
                 vresp_granted = (msg ! 16 = 1)\<rparr>)"

text \<open>
  The cluster size is a Go \<^verbatim>\<open>int\<close> (64 bits); \<^verbatim>\<open>uint32(...)\<close> keeps its low 32
  bits, and \<^verbatim>\<open>int(le.Uint32(...))\<close> is never negative.
\<close>

record peerState =
  knownPeers :: "bytes list"
  clusterSize :: int

fun writePeers :: "bytes \<Rightarrow> nat \<Rightarrow> bytes list \<Rightarrow> bytes" where
  "writePeers buf wi [] = buf"
| "writePeers buf wi (peer # ps) = writePeers (copy_at buf wi peer) (wi + idLen) ps"

definition encodePeerState :: "peerState \<Rightarrow> bytes" where
  "encodePeerState ps =
     writePeers
       (PutUint32 (word_of_int (clusterSize ps)) @
        PutUint32 (of_nat (length (knownPeers ps))) @
        replicate (8 * length (knownPeers ps)) 0)
       8 (knownPeers ps)"

datatype raftError =
    errProposalFailed | errProposalsPaused | errNotLeader | errAlreadyLeader
  | errNotCurrent | errNilCfg | errUnknownPeer | errCorruptPeers | errStepdownFailed
  | errPeersNotCurrent | errFailedToApply | errEntryLoadFailed
  | errClusterTooSmall | errNoSysAccount | errFileRead | ErrStoreClosed | ErrStoreEOF

text \<open>
  The peer loop of \<^verbatim>\<open>decodePeerState\<close> over the bytes after the 8-byte header:
  \<open>k\<close> iterations left, read offset \<open>ri\<close>.
\<close>

fun decodePeers :: "nat \<Rightarrow> nat \<Rightarrow> bytes \<Rightarrow> bytes \<Rightarrow> fault + bytes list" where
  "decodePeers 0 ri buf spare = Inr []"
| "decodePeers (Suc k) ri buf spare =
     (if ri < length buf then
        (case slice_of buf spare ri (ri + idLen) of
           Inl f \<Rightarrow> Inl f
         | Inr p \<Rightarrow>
             (case decodePeers k (ri + idLen) buf spare of
                Inl f \<Rightarrow> Inl f
              | Inr ps \<Rightarrow> Inr (p # ps)))
      else Inr [])"

definition decodePeerState :: "bytes \<Rightarrow> bytes \<Rightarrow> fault + (raftError + peerState)" where
  "decodePeerState buf spare =
     (if length buf < 8 then Inr (Inl errCorruptPeers)
      else
        let csz = uint (le_get (take 4 buf) :: u32);
            expectedPeers = unat (le_get (take 4 (drop 4 buf)) :: u32)
        in case decodePeers expectedPeers 0 (drop 8 buf) spare of
             Inl f \<Rightarrow> Inl f
           | Inr ps \<Rightarrow>
               if length ps \<noteq> expectedPeers then Inr (Inl errCorruptPeers)
               else Inr (Inr \<lparr>knownPeers = ps, clusterSize = csz\<rparr>))"

section \<open>The write-ahead log\<close>

text \<open>
  Modelled from the spec: the store behind the \<^verbatim>\<open>WAL\<close> interface is not among the
  sources. Its contract (section 6 of the specification): \<^verbatim>\<open>Store\<close> appends a record
  and returns a strictly increasing index, \<^verbatim>\<open>Load\<close> returns the stored record or a
  not-found failure, \<^verbatim>\<open>Compact(index)\<close> discards all records with index at most
  \<open>index\<close> and returns the new first index, \<^verbatim>\<open>State\<close> reports the first index, the
  last index and the record count. A stopped store refuses every call. A loaded record
  is a slice whose capacity is its length. \<open>compactCalls\<close> logs the argument of every
  call of \<^verbatim>\<open>Compact\<close>, the most recent last, so that a call is visible in the state.
\<close>

record WAL =
  wmsgs :: "(u64 \<times> bytes) list"
  FirstSeq :: u64
  LastSeq :: u64
  wclosed :: bool
  compactCalls :: "u64 list"

definition Msgs :: "WAL \<Rightarrow> nat" where
  "Msgs w = length (wmsgs w)"

definition StoreMsg :: "WAL \<Rightarrow> bytes \<Rightarrow> raftError + (u64 \<times> WAL)" where
  "StoreMsg w msg =
     (if wclosed w then Inl ErrStoreClosed
      else let seq = LastSeq w + 1
           in Inr (seq, w\<lparr>wmsgs := wmsgs w @ [(seq, msg)],
                           FirstSeq := (if wmsgs w = [] then seq else FirstSeq w),
                           LastSeq := seq\<rparr>))"

definition LoadMsg :: "WAL \<Rightarrow> u64 \<Rightarrow> raftError + bytes" where
  "LoadMsg w index =
     (if wclosed w then Inl ErrStoreClosed
      else case map_of (wmsgs w) index of None \<Rightarrow> Inl ErrStoreEOF | Some msg \<Rightarrow> Inr msg)"

definition wal_Compact :: "WAL \<Rightarrow> u64 \<Rightarrow> (raftError + u64) \<times> WAL" where
  "wal_Compact w index =
     (let w' = w\<lparr>compactCalls := compactCalls w @ [index]\<rparr>
      in if wclosed w then (Inl ErrStoreClosed, w')
         else (Inr (index + 1),
               w'\<lparr>wmsgs := filter (\<lambda>(k, m). index < k) (wmsgs w), FirstSeq := index + 1\<rparr>))"

section \<open>The node\<close>

datatype RaftState = Follower | Leader | Candidate | Observer | Closed

text \<open>
  The election timer: the durations are random, so only the kind of each arming is
  recorded, the most recent last. The empty list is the timer before it is first armed.
\<close>

datatype timerKind = ElectionTimeout | CampaignTimeout

record lps =
  ts :: int
  li :: u64

text \<open>A subscription is identified by the subject it listens on.\<close>

record catchupState =
  cs_sub :: string
  cs_cterm :: u64
  cs_cindex :: u64
  cs_pterm :: u64
  cs_pindex :: u64
  cs_hbs :: int

record CommittedEntry =
  Index :: u64
  Entries :: "Entry list"

record pubMsg =
  pm_subject :: string
  pm_reply :: string
  pm_msg :: bytes

text \<open>
  The \<^verbatim>\<open>raft\<close> struct. \<open>nodeId\<close> is the field \<^verbatim>\<open>id\<close> and \<open>curTerm\<close> the field
  \<^verbatim>\<open>term\<close>. Maps that the code iterates over are association lists (Go's iteration
  order is unspecified; no result below depends on it). A channel is the list of the
  values queued in it, oldest first; \<open>applycCap\<close> is the capacity of the apply channel
  (512, or more after a replay). \<open>peersFile\<close> and \<open>tavFile\<close> are the two files of the
  store directory, \<open>subs\<close> the subjects the node is subscribed to.
\<close>

record raft =
  nodeId :: bytes
  wal :: WAL
  state :: RaftState
  csz :: int
  qn :: int
  peers :: "(bytes \<times> lps) list"
  acks :: "u64 \<Rightarrow> bytes list option"
  elect :: "timerKind list"
  active :: int
  curTerm :: u64
  pterm :: u64
  pindex :: u64
  sindex :: u64
  commit :: u64
  applied :: u64
  leader :: bytes
  vote :: bytes
  psubj :: string
  vsubj :: string
  vreply :: string
  asubj :: string
  areply :: string
  catchup :: "catchupState option"
  progress :: "bytes \<Rightarrow> u64 list option"
  paused :: bool
  hcommit :: u64
  propc :: "Entry list"
  applyc :: "CommittedEntry option list"
  applycCap :: nat
  sendq :: "pubMsg list"
  quit :: bool
  reqs :: "voteRequest list"
  votes :: "voteResponse list"
  resp :: "appendEntryResponse option list"
  leadc :: "bool list"
  stepdown :: "bytes list"
  peersFile :: "bytes option"
  tavFile :: "bytes option"
  subs :: "string list"

definition noLeader :: bytes where "noLeader = []"
definition noVote :: bytes where "noVote = []"

text \<open>A non-blocking send on a channel of capacity \<open>c\<close>: \<open>None\<close> when it is full.\<close>

definition trySend :: "nat \<Rightarrow> 'a list \<Rightarrow> 'a \<Rightarrow> 'a list option" where
  "trySend c ch x = (if length ch < c then Some (ch @ [x]) else None)"

text \<open>Go's integer division truncates towards zero.\<close>

definition go_div :: "int \<Rightarrow> int \<Rightarrow> int" where
  "go_div a b = sgn a * sgn b * (\<bar>a\<bar> div \<bar>b\<bar>)"

definition sendRPC :: "string \<Rightarrow> string \<Rightarrow> bytes \<Rightarrow> raft \<Rightarrow> raft" where
  "sendRPC subject reply msg n =
     n\<lparr>sendq := sendq n @ [\<lparr>pm_subject = subject, pm_reply = reply, pm_msg = msg\<rparr>]\<rparr>"

definition sendReply :: "string \<Rightarrow> bytes \<Rightarrow> raft \<Rightarrow> raft" where
  "sendReply subject msg n = sendRPC subject [] msg n"

definition resetElect :: "timerKind \<Rightarrow> raft \<Rightarrow> raft" where
  "resetElect k n = n\<lparr>elect := elect n @ [k]\<rparr>"

definition resetElectionTimeout :: "raft \<Rightarrow> raft" where
  "resetElectionTimeout n = resetElect ElectionTimeout n"

subsection \<open>Durable files\<close>

text \<open>
  \<^verbatim>\<open>writeTermVote\<close>: 8 bytes of term, then the vote. The 16-byte buffer is sliced to
  \<^verbatim>\<open>buf[:8+len(n.vote)]\<close>, which panics for a vote longer than 8 bytes. The file
  system is taken to work: the error returns of \<^verbatim>\<open>os.Stat\<close> and
  \<^verbatim>\<open>ioutil.WriteFile\<close>, which every caller ignores, are left out.
\<close>

definition termVoteLen :: nat where
  "termVoteLen = idLen + 8"

definition writeTermVote :: "raft \<Rightarrow> fault + raft" where
  "writeTermVote n =
     (if termVoteLen < 8 + length (vote n) then Inl IndexOutOfRange
      else Inr (n\<lparr>tavFile := Some (PutUint64 (curTerm n) @ vote n)\<rparr>))"

definition readTermVote :: "raft \<Rightarrow> u64 \<times> bytes \<times> raftError option" where
  "readTermVote n =
     (case tavFile n of
        None \<Rightarrow> (0, noVote, Some errFileRead)
      | Some buf \<Rightarrow>
          if length buf < termVoteLen then (0, noVote, None)
          else (le_get (take 8 buf), drop 8 buf, None))"

definition writePeerState :: "peerState \<Rightarrow> raft \<Rightarrow> raft" where
  "writePeerState ps n = n\<lparr>peersFile := Some (encodePeerState ps)\<rparr>"

definition peerNames :: "raft \<Rightarrow> bytes list" where
  "peerNames n = map fst (peers n)"

subsection \<open>Storing and sending append entries\<close>

definition buildAppendEntry :: "Entry list \<Rightarrow> raft \<Rightarrow> appendEntry" where
  "buildAppendEntry entries n =
     \<lparr>ae_leader = nodeId n, ae_term = curTerm n, ae_commit = commit n, ae_pterm = pterm n,
      ae_pindex = pindex n, ae_entries = entries, ae_reply = [], ae_buf = None\<rparr>"

definition storeToWAL :: "appendEntry \<Rightarrow> raft \<Rightarrow> fault + (raftError option \<times> raft)" where
  "storeToWAL ae n =
     (case ae_buf ae of
        None \<Rightarrow> Inl ExplicitPanic
      | Some buf \<Rightarrow>
          (case StoreMsg (wal n) buf of
             Inl err \<Rightarrow> Inr (Some err, n)
           | Inr (seq, w) \<Rightarrow>
               if ae_pindex ae = seq - 1
               then Inr (None, n\<lparr>wal := w, pterm := ae_term ae, pindex := seq\<rparr>)
               else Inl ExplicitPanic))"

definition sendAppendEntry :: "int \<Rightarrow> Entry list \<Rightarrow> raft \<Rightarrow> fault + raft" where
  "sendAppendEntry now entries n =
     (let buf = ae_encode (buildAppendEntry entries n);
          ae = (buildAppendEntry entries n)\<lparr>ae_buf := Some buf\<rparr>
      in if entries = [] then Inr (sendRPC (asubj n) (areply n) buf n)
         else case storeToWAL ae n of
                Inl f \<Rightarrow> Inl f
              | Inr (Some err, n1) \<Rightarrow> Inl ExplicitPanic
              | Inr (None, n1) \<Rightarrow>
                  (let n2 = n1\<lparr>acks := (acks n1)(pindex n1 \<mapsto> [nodeId n1])\<rparr>;
                       n3 = (if list_ex (\<lambda>e. Type e = EntrySnapshot) entries
                             then n2\<lparr>sindex := pindex n2\<rparr> else n2);
                       n4 = n3\<lparr>active := now\<rparr>
                   in Inr (sendRPC (asubj n4) (areply n4) buf n4)))"

definition sendHeartbeat :: "int \<Rightarrow> raft \<Rightarrow> fault + raft" where
  "sendHeartbeat now n = sendAppendEntry now [] n"

definition currentPeerState :: "raft \<Rightarrow> peerState" where
  "currentPeerState n = \<lparr>knownPeers = peerNames n, clusterSize = csz n\<rparr>"

definition sendPeerState :: "int \<Rightarrow> raft \<Rightarrow> fault + raft" where
  "sendPeerState now n =
     sendAppendEntry now
       [\<lparr>Type = EntryPeerState, Data = encodePeerState (currentPeerState n), DataSpare = []\<rparr>] n"

subsection \<open>Applying committed entries\<close>

definition loadEntry :: "u64 \<Rightarrow> raft \<Rightarrow> fault + (raftError + appendEntry option)" where
  "loadEntry index n =
     (case LoadMsg (wal n) index of
        Inl err \<Rightarrow> Inr (Inl err)
      | Inr msg \<Rightarrow>
          (case decodeAppendEntry msg [] [] of
             Inl f \<Rightarrow> Inl f
           | Inr r \<Rightarrow> Inr (Inr r)))"

definition processPeerState :: "peerState \<Rightarrow> raft \<Rightarrow> raft" where
  "processPeerState ps n =
     writePeerState ps
       (n\<lparr>csz := clusterSize ps,
          peers := fold (\<lambda>peer al. AList.update peer \<lparr>ts = 0, li = 0\<rparr> al) (knownPeers ps) []\<rparr>)"

text \<open>
  The loop of \<^verbatim>\<open>applyCommit\<close> over the entries of the loaded append entry;
  \<open>committed\<close> collects the entries for the upper layer.
\<close>

fun applyEntries :: "int \<Rightarrow> Entry list \<Rightarrow> Entry list \<Rightarrow> raft \<Rightarrow> fault + (Entry list \<times> raft)" where
  "applyEntries now [] committed n = Inr (committed, n)"
| "applyEntries now (e # es) committed n =
     (if Type e = EntryNormal then applyEntries now es (committed @ [e]) n
      else if Type e = EntrySnapshot then applyEntries now es (committed @ [e]) n
      else if Type e = EntryPeerState then
        (case decodePeerState (Data e) (DataSpare e) of
           Inl f \<Rightarrow> Inl f
         | Inr (Inl err) \<Rightarrow> applyEntries now es committed n
         | Inr (Inr ps) \<Rightarrow> applyEntries now es committed (processPeerState ps n))
      else if Type e = EntryAddPeer then
        (let newPeer = Data e;
             n1 = (if map_of (peers n) newPeer = None
                   then n\<lparr>csz := csz n + 1,
                          qn := go_div (csz n + 1) 2 + 1,
                          peers := AList.update newPeer \<lparr>ts = now, li = 0\<rparr> (peers n)\<rparr>
                   else n)
         in applyEntries now es committed
              (writePeerState \<lparr>knownPeers = peerNames n1, clusterSize = csz n1\<rparr> n1))
      else applyEntries now es committed n)"

definition applyCommit :: "int \<Rightarrow> u64 \<Rightarrow> raft \<Rightarrow> fault + (raftError option \<times> raft)" where
  "applyCommit now index n =
     (if index \<le> commit n then Inr (None, n)
      else
        let original = commit n;
            n1 = n\<lparr>commit := index\<rparr>;
            n2 = (if state n1 = Leader then n1\<lparr>acks := (acks n1)(index := None)\<rparr> else n1)
        in case loadEntry index n2 of
             Inl f \<Rightarrow> Inl f
           | Inr (Inl err) \<Rightarrow> Inr (Some errEntryLoadFailed, n2\<lparr>commit := original\<rparr>)
           | Inr (Inr None) \<Rightarrow> Inl NilDereference
           | Inr (Inr (Some ae)) \<Rightarrow>
               (case applyEntries now (ae_entries ae) [] n2 of
                  Inl f \<Rightarrow> Inl f
                | Inr (committed, n3) \<Rightarrow>
                    if committed = [] then Inr (None, n3\<lparr>applied := index\<rparr>)
                    else
                      (case trySend (applycCap n3) (applyc n3)
                              (Some \<lparr>Index = index, Entries = committed\<rparr>) of
                         Some ch \<Rightarrow> Inr (None, n3\<lparr>applyc := ch\<rparr>)
                       | None \<Rightarrow> Inr (Some errFailedToApply, n3\<lparr>commit := original\<rparr>))))"

text \<open>
  The loop that \<^verbatim>\<open>trackResponse\<close>, \<^verbatim>\<open>ResumeApply\<close> and \<^verbatim>\<open>processAppendEntry\<close>
  share:
  \<^verbatim>\<open>for index := n.commit + 1; index <= hi; index++ { if err := n.applyCommit(index); err != nil { break } }\<close>.
  When the index \<open>2^64 - 1\<close> has been applied, \<^verbatim>\<open>index++\<close> wraps to 0, every later call
  returns nil at once (the index is at most \<open>commit\<close>) and the loop never ends.
\<close>

function applyCommits :: "int \<Rightarrow> u64 \<Rightarrow> u64 \<Rightarrow> raft \<Rightarrow> fault + raft" where
  "applyCommits now index hi n =
     (if index \<le> hi then
        (case applyCommit now index n of
           Inl f \<Rightarrow> Inl f
         | Inr (Some err, n') \<Rightarrow> Inr n'
         | Inr (None, n') \<Rightarrow>
             if index = - 1 then Inl Diverges else applyCommits now (index + 1) hi n')
      else Inr n)"
  by pat_completeness auto
termination
proof (relation "measure (\<lambda>(now, index, hi, n). Suc (unat hi) - unat index)")
  show "wf (measure (\<lambda>(now, index, hi, n). Suc (unat hi) - unat index))"
    by simp
next
  fix now :: int and index hi :: u64 and n :: raft and x2 x1 x2a
  assume le: "index \<le> hi" and ne: "index \<noteq> - 1"
  from ne have "unat (index + 1) = unat index + 1"
    by (metis Suc_eq_plus1 add.commute eq_neg_iff_add_eq_0 unatSuc)
  moreover from le have "unat index \<le> unat hi"
    by (simp add: word_le_nat_alt)
  ultimately show "((now, index + 1, hi, x2a), now, index, hi, n)
      \<in> measure (\<lambda>(now, index, hi, n). Suc (unat hi) - unat index)"
    by simp
qed

declare applyCommits.simps [simp del]

subsection \<open>The leader's response tracking\<close>

definition trackResponse :: "int \<Rightarrow> appendEntryResponse \<Rightarrow> raft \<Rightarrow> fault + raft" where
  "trackResponse now ar n =
     (let n1 = (case map_of (peers n) (ar_peer ar) of
                  None \<Rightarrow> n
                | Some ps \<Rightarrow>
                    if li ps < ar_index ar
                    then n\<lparr>peers := AList.update (ar_peer ar) (ps\<lparr>li := ar_index ar\<rparr>) (peers n)\<rparr>
                    else n);
          n2 = (case progress n1 (ar_peer ar) of
                  None \<Rightarrow> n1
                | Some ch \<Rightarrow> n1\<lparr>progress := (progress n1)(ar_peer ar \<mapsto> ch @ [ar_index ar])\<rparr>)
      in if ar_index ar \<le> commit n2 then Inr n2
         else case acks n2 (ar_index ar) of
                None \<Rightarrow> Inr n2
              | Some results \<Rightarrow>
                  (let results' = List.insert (ar_peer ar) results;
                       n3 = n2\<lparr>acks := (acks n2)(ar_index ar \<mapsto> results')\<rparr>
                   in if qn n3 \<le> int (length results') then
                        (case applyCommits now (commit n3 + 1) (ar_index ar) n3 of
                           Inl f \<Rightarrow> Inl f
                         | Inr n4 \<Rightarrow> if propc n4 = [] then sendHeartbeat now n4 else Inr n4)
                      else Inr n3))"

subsection \<open>Compaction, pausing and resuming\<close>

definition Compact :: "u64 \<Rightarrow> raft \<Rightarrow> raftError option \<times> raft" where
  "Compact index n =
     (if state n = Leader then
        (if list_ex (\<lambda>(peer, ps). peer \<noteq> nodeId n \<and> li ps < index) (peers n)
         then (Some errPeersNotCurrent, n) else (None, n))
      else case wal_Compact (wal n) index of
             (Inl err, w) \<Rightarrow> (Some err, n\<lparr>wal := w\<rparr>)
           | (Inr newFirst, w) \<Rightarrow> (None, n\<lparr>wal := w\<rparr>))"

definition PauseApply :: "raft \<Rightarrow> raft" where
  "PauseApply n = n\<lparr>paused := True, hcommit := commit n\<rparr>"

definition ResumeApply :: "int \<Rightarrow> raft \<Rightarrow> fault + raft" where
  "ResumeApply now n =
     (case (if commit n < hcommit n then applyCommits now (commit n + 1) (hcommit n) n
            else Inr n) of
        Inl f \<Rightarrow> Inl f
      | Inr n1 \<Rightarrow> Inr (n1\<lparr>paused := False, hcommit := 0\<rparr>))"

subsection \<open>Role changes\<close>

text \<open>
  \<^verbatim>\<open>updateLeadChange\<close> posts on the channel \<^verbatim>\<open>leadc\<close> (capacity 4): it sends when there
  is room, and otherwise drops the oldest unread value and sends. When the channel is
  neither empty nor full Go's \<^verbatim>\<open>select\<close> may take either arm; the send is taken here.
\<close>

definition updateLeadChange :: "bool \<Rightarrow> raft \<Rightarrow> raft" where
  "updateLeadChange isLeader n =
     (case trySend 4 (leadc n) isLeader of
        Some ch \<Rightarrow> n\<lparr>leadc := ch\<rparr>
      | None \<Rightarrow>
          (case trySend 4 (tl (leadc n)) isLeader of
             Some ch \<Rightarrow> n\<lparr>leadc := ch\<rparr>
           | None \<Rightarrow> n\<lparr>leadc := tl (leadc n)\<rparr>))"

definition attemptStepDown :: "bytes \<Rightarrow> raft \<Rightarrow> raft" where
  "attemptStepDown newLeader n =
     (case trySend 4 (stepdown n) newLeader of
        Some ch \<Rightarrow> n\<lparr>stepdown := ch\<rparr>
      | None \<Rightarrow> n)"

definition campaign :: "raft \<Rightarrow> raftError option \<times> raft" where
  "campaign n =
     (if state n = Leader then (Some errAlreadyLeader, n)
      else (None, resetElect CampaignTimeout n))"

definition switchState :: "RaftState \<Rightarrow> raft \<Rightarrow> fault + raft" where
  "switchState st n =
     (if state n = Closed then Inr n
      else
        let n1 = resetElectionTimeout n;
            n2 = (if state n1 = Leader \<and> st \<noteq> Leader then updateLeadChange False n1
                  else if st = Leader \<and> state n1 \<noteq> Leader then updateLeadChange True n1
                  else n1)
        in writeTermVote (n2\<lparr>state := st, vote := noVote\<rparr>))"

definition lostQuorumInterval :: int where
  "lostQuorumInterval = 600000000"

text \<open>The loop of \<^verbatim>\<open>lostQuorumLocked\<close> over the peers, \<open>nc\<close> counted so far.\<close>

fun lostQuorumLoop :: "int \<Rightarrow> int \<Rightarrow> int \<Rightarrow> (bytes \<times> lps) list \<Rightarrow> bool" where
  "lostQuorumLoop now q nc [] = True"
| "lostQuorumLoop now q nc (p # ps) =
     (if now - ts (snd p) < lostQuorumInterval
      then (if q \<le> nc + 1 then False else lostQuorumLoop now q (nc + 1) ps)
      else lostQuorumLoop now q nc ps)"

definition lostQuorumLocked :: "int \<Rightarrow> raft \<Rightarrow> bool" where
  "lostQuorumLocked now n = lostQuorumLoop now (qn n) 1 (peers n)"

definition switchToFollower :: "bytes \<Rightarrow> raft \<Rightarrow> fault + raft" where
  "switchToFollower newLeader n = switchState Follower (n\<lparr>leader := newLeader\<rparr>)"

definition switchToCandidate :: "int \<Rightarrow> raft \<Rightarrow> fault + raft" where
  "switchToCandidate now n =
     (let n1 = (if state n = Candidate \<and> lostQuorumLocked now n
                then updateLeadChange False n else n)
      in switchState Candidate (n1\<lparr>curTerm := curTerm n1 + 1, leader := noLeader\<rparr>))"

definition switchToLeader :: "raft \<Rightarrow> fault + raft" where
  "switchToLeader n = switchState Leader (n\<lparr>leader := nodeId n\<rparr>)"

subsection \<open>Votes\<close>

definition touchPeer :: "int \<Rightarrow> bytes \<Rightarrow> (bytes \<times> lps) list \<Rightarrow> (bytes \<times> lps) list" where
  "touchPeer now peer ps =
     (case map_of ps peer of
        Some p \<Rightarrow> AList.update peer (p\<lparr>ts := now\<rparr>) ps
      | None \<Rightarrow> AList.update peer \<lparr>ts = now, li = 0\<rparr> ps)"

definition trackPeer :: "int \<Rightarrow> bytes \<Rightarrow> raft \<Rightarrow> fault + (raftError option \<times> raft)" where
  "trackPeer now peer n =
     (if state n = Leader \<and> map_of (peers n) peer = None \<and> csz n \<le> int (length (peers n))
      then Inr (Some errUnknownPeer, n)
      else
        let needPeerUpdate = (state n = Leader \<and> map_of (peers n) peer = None);
            n1 = n\<lparr>peers := touchPeer now peer (peers n)\<rparr>
        in if needPeerUpdate then
             (case sendPeerState now n1 of Inl f \<Rightarrow> Inl f | Inr n2 \<Rightarrow> Inr (None, n2))
           else Inr (None, n1))"

text \<open>
  \<^verbatim>\<open>processVoteRequest\<close>. The grant condition is the source's
  \<^verbatim>\<open>vr.lastIndex >= n.pindex && n.vote == noVote || n.vote == vr.candidate\<close>, in which
  \<^verbatim>\<open>&&\<close> binds tighter than \<^verbatim>\<open>||\<close>. The response is built from the term the node
  had on entry.
\<close>

definition processVoteRequest ::
  "int \<Rightarrow> voteRequest \<Rightarrow> raft \<Rightarrow> fault + (raftError option \<times> raft)" where
  "processVoteRequest now vr n =
     (let vresp = \<lparr>vresp_term = curTerm n, vresp_peer = nodeId n, vresp_granted = False\<rparr>
      in case trackPeer now (vr_candidate vr) n of
           Inl f \<Rightarrow> Inl f
         | Inr (Some err, n1) \<Rightarrow> Inr (Some err, sendReply (vr_reply vr) (vresp_encode vresp) n1)
         | Inr (None, n1) \<Rightarrow>
             if vr_term vr < curTerm n1
             then Inr (None, sendReply (vr_reply vr) (vresp_encode vresp) n1)
             else
               (case (if curTerm n1 < vr_term vr then
                        (case writeTermVote (n1\<lparr>curTerm := vr_term vr, vote := noVote\<rparr>) of
                           Inl f \<Rightarrow> Inl f
                         | Inr n2 \<Rightarrow>
                             Inr (if state n2 = Candidate then attemptStepDown noLeader n2 else n2))
                      else Inr n1) of
                  Inl f \<Rightarrow> Inl f
                | Inr n3 \<Rightarrow>
                    if (pindex n3 \<le> vr_lastIndex vr \<and> vote n3 = noVote) \<or>
                       vote n3 = vr_candidate vr
                    then
                      (case writeTermVote (n3\<lparr>vote := vr_candidate vr\<rparr>) of
                         Inl f \<Rightarrow> Inl f
                       | Inr n4 \<Rightarrow>
                           Inr (None,
                                sendReply (vr_reply vr)
                                  (vresp_encode (vresp\<lparr>vresp_granted := True\<rparr>))
                                  (resetElectionTimeout n4)))
                    else Inr (None, sendReply (vr_reply vr) (vresp_encode vresp) n3)))"

definition requestVote :: "raft \<Rightarrow> fault + raft" where
  "requestVote n =
     (if state n = Candidate then
        (case writeTermVote (n\<lparr>vote := nodeId n\<rparr>) of
           Inl f \<Rightarrow> Inl f
         | Inr n1 \<Rightarrow>
             Inr (sendRPC (vsubj n1) (vreply n1)
                    (vr_encode \<lparr>vr_term = curTerm n1, vr_lastTerm = pterm n1,
                                vr_lastIndex = pindex n1, vr_candidate = nodeId n1,
                                vr_reply = []\<rparr>) n1))
      else Inl ExplicitPanic)"

definition quorumNeeded :: "raft \<Rightarrow> int" where
  "quorumNeeded n = qn n"

definition wonElection :: "int \<Rightarrow> raft \<Rightarrow> bool" where
  "wonElection tally n = (quorumNeeded n \<le> tally)"

subsection \<open>Append entries on a follower\<close>

text \<open>
  \<^verbatim>\<open>newInbox\<close> formats a random number into the suffix of a reply subject; the
  suffix is an input here. Subscribing is taken to succeed.
\<close>

definition newInbox :: "string \<Rightarrow> string" where
  "newInbox suffix = ''$NRG.R.'' @ suffix"

definition cancelCatchup :: "raft \<Rightarrow> raft" where
  "cancelCatchup n =
     (case catchup n of
        None \<Rightarrow> n
      | Some cs \<Rightarrow> n\<lparr>subs := removeAll (cs_sub cs) (subs n), catchup := None\<rparr>)"

definition catchupStalled :: "raft \<Rightarrow> bool \<times> raft" where
  "catchupStalled n =
     (case catchup n of
        None \<Rightarrow> (False, n)
      | Some cs \<Rightarrow>
          (let cs' = (if cs_pindex cs = pindex n then cs\<lparr>cs_hbs := cs_hbs cs + 1\<rparr>
                      else cs\<lparr>cs_pindex := pindex n, cs_hbs := 0\<rparr>)
           in (3 \<le> cs_hbs cs', n\<lparr>catchup := Some cs'\<rparr>)))"

definition createCatchup :: "string \<Rightarrow> appendEntry \<Rightarrow> raft \<Rightarrow> string \<times> raft" where
  "createCatchup suffix ae n =
     (let n1 = (case catchup n of
                  None \<Rightarrow> n
                | Some cs \<Rightarrow> n\<lparr>subs := removeAll (cs_sub cs) (subs n)\<rparr>);
          inbox = newInbox suffix
      in (inbox,
          n1\<lparr>catchup := Some \<lparr>cs_sub = inbox, cs_cterm = ae_pterm ae, cs_cindex = ae_pindex ae,
                               cs_pterm = pterm n1, cs_pindex = pindex n1, cs_hbs = 0\<rparr>,
             subs := subs n1 @ [inbox]\<rparr>))"

text \<open>
  The loop of \<^verbatim>\<open>processAppendEntry\<close> over the stored entries, for the entry types that
  act when stored.
\<close>

fun storedEntries :: "int \<Rightarrow> bool \<Rightarrow> u64 \<Rightarrow> Entry list \<Rightarrow> raft \<Rightarrow> raft" where
  "storedEntries now isNew aepindex [] n = n"
| "storedEntries now isNew aepindex (e # es) n =
     (if Type e = EntryLeaderTransfer then
        storedEntries now isNew aepindex es
          (if isNew \<and> Data e = nodeId n then snd (campaign n) else n)
      else if Type e = EntryAddPeer then
        storedEntries now isNew aepindex es
          (if length (Data e) = idLen then n\<lparr>peers := touchPeer now (Data e) (peers n)\<rparr> else n)
      else if Type e = EntrySnapshot then
        storedEntries now isNew aepindex es
          (if sindex n < aepindex + 1 then n\<lparr>sindex := aepindex + 1\<rparr> else n)
      else storedEntries now isNew aepindex es n)"

text \<open>
  \<^verbatim>\<open>processAppendEntry\<close> from the term check (\<^verbatim>\<open>if ae.term > n.term\<close>) to the end.
  \<open>sub\<close> is the subscription the message came in on, \<open>None\<close> on a replay.
\<close>

definition acceptAppendEntry ::
  "int \<Rightarrow> string \<Rightarrow> appendEntry \<Rightarrow> string option \<Rightarrow> bool \<Rightarrow> bool \<Rightarrow> raft \<Rightarrow> fault + raft" where
  "acceptAppendEntry now suffix ae sub isNew catchingUp n =
     (case (if curTerm n < ae_term ae then
              (case writeTermVote (n\<lparr>curTerm := ae_term ae, vote := noVote\<rparr>) of
                 Inl f \<Rightarrow> Inl f
               | Inr m \<Rightarrow> Inr (if state m = Follower then m else attemptStepDown (ae_leader ae) m))
            else Inr n) of
        Inl f \<Rightarrow> Inl f
      | Inr n1 \<Rightarrow>
      (case (if leader n1 = ae_leader ae then Inr n1
             else if state n1 = Follower then
               (case writeTermVote (n1\<lparr>leader := ae_leader ae, vote := noVote\<rparr>) of
                  Inl f \<Rightarrow> Inl f
                | Inr m \<Rightarrow>
                    Inr (if isNew then updateLeadChange False (resetElectionTimeout m) else m))
             else Inr n1) of
        Inl f \<Rightarrow> Inl f
      | Inr n2 \<Rightarrow>
          if \<not> (ae_pterm ae = pterm n2 \<and> ae_pindex ae = pindex n2) \<and>
             \<not> (catchingUp \<and>
                (case ae_entries ae of [] \<Rightarrow> False | e # es \<Rightarrow> Type e = EntrySnapshot))
          then
            (let (inbox, m) = createCatchup suffix ae (n2\<lparr>curTerm := pterm n2\<rparr>);
                 ar = \<lparr>ar_term = pterm m, ar_index = pindex m, ar_peer = nodeId m,
                       ar_success = False, ar_reply = []\<rparr>
             in Inr (sendRPC (ae_reply ae) inbox (ar_encode ar) m))
          else
            (let n3 = (if ae_pterm ae = pterm n2 \<and> ae_pindex ae = pindex n2 then n2
                       else n2\<lparr>wal := snd (wal_Compact (wal n2) (ae_pindex ae + 1)),
                               pindex := ae_pindex ae, commit := ae_pindex ae\<rparr>)
             in case (if ae_entries ae = [] then Inr (False, n3)
                      else
                        (case (case sub of
                                 None \<Rightarrow>
                                   Inr (None, n3\<lparr>pterm := ae_term ae, pindex := ae_pindex ae + 1\<rparr>)
                               | Some s \<Rightarrow> storeToWAL ae n3) of
                           Inl f \<Rightarrow> Inl f
                         | Inr (Some err, m) \<Rightarrow>
                             if err = ErrStoreClosed then Inr (True, m)
                             else Inr (False, storedEntries now isNew (ae_pindex ae) (ae_entries ae) m)
                         | Inr (None, m) \<Rightarrow>
                             Inr (False, storedEntries now isNew (ae_pindex ae) (ae_entries ae) m))) of
                  Inl f \<Rightarrow> Inl f
                | Inr (True, n4) \<Rightarrow> Inr n4
                | Inr (False, n4) \<Rightarrow>
                    (case (if commit n4 < ae_commit ae then
                             (if paused n4 then Inr (n4\<lparr>hcommit := ae_commit ae\<rparr>)
                              else applyCommits now (commit n4 + 1) (ae_commit ae) n4)
                           else Inr n4) of
                       Inl f \<Rightarrow> Inl f
                     | Inr n5 \<Rightarrow>
                         Inr (sendRPC (ae_reply ae) []
                                (ar_encode \<lparr>ar_term = pterm n5, ar_index = pindex n5,
                                            ar_peer = nodeId n5, ar_success = True,
                                            ar_reply = []\<rparr>) n5)))))"

definition processAppendEntry ::
  "int \<Rightarrow> string \<Rightarrow> appendEntry \<Rightarrow> string option \<Rightarrow> raft \<Rightarrow> fault + raft" where
  "processAppendEntry now suffix ae sub n =
     (if state n = Closed then Inr n
      else
        case (if state n = Candidate then
                (case writeTermVote (n\<lparr>curTerm := ae_term ae, vote := noVote\<rparr>) of
                   Inl f \<Rightarrow> Inl f
                 | Inr m \<Rightarrow> Inr (attemptStepDown (ae_leader ae) m))
              else Inr n) of
          Inl f \<Rightarrow> Inl f
        | Inr n1 \<Rightarrow>
            (let catchingUp = (case catchup n1 of None \<Rightarrow> False | Some cs \<Rightarrow> True);
                 isNew = (case sub of
                            None \<Rightarrow> False
                          | Some s \<Rightarrow> (case catchup n1 of None \<Rightarrow> True | Some cs \<Rightarrow> s \<noteq> cs_sub cs));
                 n2 = (if isNew then
                         (let m = resetElectionTimeout n1
                          in if ae_leader ae = noLeader then m
                             else m\<lparr>peers := touchPeer now (ae_leader ae) (peers m)\<rparr>)
                       else n1)
             in if isNew \<and> ae_term ae < curTerm n2 then Inr n2
                else if catchingUp \<and> isNew then
                  (case catchup n2 of
                     None \<Rightarrow> Inr n2
                   | Some cs \<Rightarrow>
                       if cs_cterm cs \<le> pterm n2 \<and> cs_cindex cs \<le> pindex n2
                       then acceptAppendEntry now suffix ae sub isNew False (cancelCatchup n2)
                       else
                         (case catchupStalled n2 of
                            (False, n3) \<Rightarrow> Inr n3
                          | (True, n3) \<Rightarrow>
                              (let (inbox, n4) = createCatchup suffix ae n3;
                                   ar = \<lparr>ar_term = pterm n4, ar_index = pindex n4,
                                         ar_peer = nodeId n4, ar_success = False, ar_reply = []\<rparr>
                               in Inr (sendRPC (ae_reply ae) inbox (ar_encode ar) n4))))
                else acceptAppendEntry now suffix ae sub isNew catchingUp n2))"

subsection \<open>Transport handlers\<close>

text \<open>
  The subscription callbacks. \<open>spare\<close> is the spare capacity of the message slice the
  transport hands over.
\<close>

definition handleAppendEntry ::
  "int \<Rightarrow> string \<Rightarrow> string \<Rightarrow> string \<Rightarrow> bytes \<Rightarrow> bytes \<Rightarrow> raft \<Rightarrow> fault + raft" where
  "handleAppendEntry now suffix sub reply msg spare n =
     (case decodeAppendEntry msg spare reply of
        Inl f \<Rightarrow> Inl f
      | Inr None \<Rightarrow> Inr n
      | Inr (Some ae) \<Rightarrow> processAppendEntry now suffix ae (Some sub) n)"

definition handleAppendEntryResponse :: "string \<Rightarrow> bytes \<Rightarrow> raft \<Rightarrow> fault + raft" where
  "handleAppendEntryResponse reply msg n =
     (case (case decodeAppendEntryResponse msg of
              None \<Rightarrow> if reply = [] then Inr None else Inl NilDereference
            | Some aer \<Rightarrow> Inr (Some (if reply = [] then aer else aer\<lparr>ar_reply := reply\<rparr>))) of
        Inl f \<Rightarrow> Inl f
      | Inr aer \<Rightarrow>
          (case trySend 256 (resp n) aer of
             Some ch \<Rightarrow> Inr (n\<lparr>resp := ch\<rparr>)
           | None \<Rightarrow> Inr n))"

definition handleVoteRequest :: "string \<Rightarrow> bytes \<Rightarrow> raft \<Rightarrow> raft" where
  "handleVoteRequest reply msg n =
     (case decodeVoteRequest msg reply of
        None \<Rightarrow> n
      | Some vr \<Rightarrow> (case trySend 4 (reqs n) vr of Some ch \<Rightarrow> n\<lparr>reqs := ch\<rparr> | None \<Rightarrow> n))"

definition handleVoteResponse :: "bytes \<Rightarrow> raft \<Rightarrow> raft" where
  "handleVoteResponse msg n =
     (case decodeVoteResponse msg of
        None \<Rightarrow> n
      | Some vr \<Rightarrow> (case trySend 8 (votes n) vr of Some ch \<Rightarrow> n\<lparr>votes := ch\<rparr> | None \<Rightarrow> n))"

subsection \<open>The candidate loop\<close>

text \<open>
  What happens around the \<^verbatim>\<open>select\<close> of \<^verbatim>\<open>runAsCandidate\<close>, with the clock at that
  moment: an arm of the \<^verbatim>\<open>select\<close> fires (chosen by the scheduler among the ready
  ones; a receiving arm takes the oldest value of its channel), or the transport
  delivers a message to a subscription callback, which runs between two rounds of the
  loop and queues the decoded message.
\<close>

datatype selectArm = ServerQuit | NodeQuit | ElectTimer | VoteResp | VoteReq | StepDown

datatype event =
    Arm selectArm
  | VoteResponseArrives bytes
  | VoteRequestArrives string bytes

text \<open>
  The loop with the tally \<open>tally\<close> (the local \<^verbatim>\<open>votes\<close>). The result says whether the
  loop has returned, or is still waiting in \<^verbatim>\<open>select\<close> when the events run out (or
  when the arm named next is not ready).
\<close>

fun candidateLoop ::
  "(int \<times> event) list \<Rightarrow> int \<Rightarrow> raft \<Rightarrow> fault + (bool \<times> int \<times> raft)" where
  "candidateLoop [] tally n = Inr (False, tally, n)"
| "candidateLoop ((now, VoteResponseArrives msg) # evs) tally n =
     candidateLoop evs tally (handleVoteResponse msg n)"
| "candidateLoop ((now, VoteRequestArrives reply msg) # evs) tally n =
     candidateLoop evs tally (handleVoteRequest reply msg n)"
| "candidateLoop ((now, Arm ServerQuit) # evs) tally n = Inr (True, tally, n)"
| "candidateLoop ((now, Arm NodeQuit) # evs) tally n = Inr (True, tally, n)"
| "candidateLoop ((now, Arm ElectTimer) # evs) tally n =
     (case switchToCandidate now n of
        Inl f \<Rightarrow> Inl f
      | Inr n1 \<Rightarrow> Inr (True, tally, n1))"
| "candidateLoop ((now, Arm VoteResp) # evs) tally n =
     (case votes n of
        [] \<Rightarrow> Inr (False, tally, n)
      | vresp # rest \<Rightarrow>
          (case trackPeer now (vresp_peer vresp) (n\<lparr>votes := rest\<rparr>) of
             Inl f \<Rightarrow> Inl f
           | Inr (err, n1) \<Rightarrow>
               if vresp_granted vresp \<and> vresp_term vresp \<le> curTerm n1 then
                 (if wonElection (tally + 1) n1 then
                    (case switchToLeader n1 of
                       Inl f \<Rightarrow> Inl f
                     | Inr n2 \<Rightarrow> Inr (True, tally + 1, n2))
                  else candidateLoop evs (tally + 1) n1)
               else candidateLoop evs tally n1))"
| "candidateLoop ((now, Arm VoteReq) # evs) tally n =
     (case reqs n of
        [] \<Rightarrow> Inr (False, tally, n)
      | vreq # rest \<Rightarrow>
          (case processVoteRequest now vreq (n\<lparr>reqs := rest\<rparr>) of
             Inl f \<Rightarrow> Inl f
           | Inr (err, n1) \<Rightarrow> candidateLoop evs tally n1))"
| "candidateLoop ((now, Arm StepDown) # evs) tally n =
     (case stepdown n of
        [] \<Rightarrow> Inr (False, tally, n)
      | newLeader # rest \<Rightarrow>
          (case switchToFollower newLeader (n\<lparr>stepdown := rest\<rparr>) of
             Inl f \<Rightarrow> Inl f
           | Inr n1 \<Rightarrow> Inr (True, tally, n1)))"

text \<open>
  \<^verbatim>\<open>runAsCandidate\<close>: drain the old vote responses, send the vote request, count the
  node's own vote, run the loop.
\<close>

definition runAsCandidate :: "(int \<times> event) list \<Rightarrow> raft \<Rightarrow> fault + (bool \<times> int \<times> raft)" where
  "runAsCandidate evs n =
     (case requestVote (n\<lparr>votes := []\<rparr>) of
        Inl f \<Rightarrow> Inl f
      | Inr n1 \<Rightarrow> candidateLoop evs 1 n1)"

subsection \<open>Starting a node\<close>

text \<open>
  \<^verbatim>\<open>RaftConfig\<close>: the group name, the store directory (its two files, \<open>None\<close> for a
  file that does not exist) and the log.
\<close>

record RaftConfig =
  Name :: string
  StorePeers :: "bytes option"
  StoreTav :: "bytes option"
  Log :: WAL

definition readPeerState :: "bytes option \<Rightarrow> bytes \<Rightarrow> fault + (raftError + peerState)" where
  "readPeerState file spare =
     (case file of
        None \<Rightarrow> Inr (Inl errFileRead)
      | Some buf \<Rightarrow> decodePeerState buf spare)"

definition loadFirstEntry :: "raft \<Rightarrow> fault + (raftError + appendEntry option)" where
  "loadFirstEntry n = loadEntry (FirstSeq (wal n)) n"

text \<open>
  The replay loop of \<^verbatim>\<open>startRaftNode\<close>:
  \<^verbatim>\<open>for index := state.FirstSeq; index <= state.LastSeq; index++\<close>. A log whose last
  index is \<open>2^64 - 1\<close> makes the counter wrap; the run is cut there with a fault of its
  own.
\<close>

function replayLog :: "int \<Rightarrow> (u64 \<Rightarrow> string) \<Rightarrow> u64 \<Rightarrow> u64 \<Rightarrow> raft \<Rightarrow> fault + raft" where
  "replayLog now sfx index lastSeq n =
     (if index \<le> lastSeq then
        (case loadEntry index n of
           Inl f \<Rightarrow> Inl f
         | Inr (Inl err) \<Rightarrow> Inl ExplicitPanic
         | Inr (Inr None) \<Rightarrow>
             if state n = Closed
             then (if index = - 1 then Inl CounterWrapped
                   else replayLog now sfx (index + 1) lastSeq n)
             else Inl NilDereference
         | Inr (Inr (Some ae)) \<Rightarrow>
             (case processAppendEntry now (sfx index) ae None n of
                Inl f \<Rightarrow> Inl f
              | Inr n' \<Rightarrow>
                  if index = - 1 then Inl CounterWrapped
                  else replayLog now sfx (index + 1) lastSeq n'))
      else Inr n)"
  by pat_completeness auto
termination
proof (relation "measure (\<lambda>(now, sfx, index, lastSeq, n). Suc (unat lastSeq) - unat index)")
  show "wf (measure (\<lambda>(now, sfx, index, lastSeq, n). Suc (unat lastSeq) - unat index))"
    by simp
next
  fix now :: int and sfx :: "u64 \<Rightarrow> string" and index lastSeq :: u64 and n :: raft
  assume le: "index \<le> lastSeq" and ne: "index \<noteq> - 1"
  from ne have "unat (index + 1) = unat index + 1"
    by (metis Suc_eq_plus1 add.commute eq_neg_iff_add_eq_0 unatSuc)
  moreover from le have "unat index \<le> unat lastSeq"
    by (simp add: word_le_nat_alt)
  ultimately show "((now, sfx, index + 1, lastSeq, n), now, sfx, index, lastSeq, n)
      \<in> measure (\<lambda>(now, sfx, index, lastSeq, n). Suc (unat lastSeq) - unat index)"
    by simp
next
  fix now :: int and sfx :: "u64 \<Rightarrow> string" and index lastSeq :: u64 and n n' :: raft
  assume le: "index \<le> lastSeq" and ne: "index \<noteq> - 1"
  from ne have "unat (index + 1) = unat index + 1"
    by (metis Suc_eq_plus1 add.commute eq_neg_iff_add_eq_0 unatSuc)
  moreover from le have "unat index \<le> unat lastSeq"
    by (simp add: word_le_nat_alt)
  ultimately show "((now, sfx, index + 1, lastSeq, n'), now, sfx, index, lastSeq, n)
      \<in> measure (\<lambda>(now, sfx, index, lastSeq, n). Suc (unat lastSeq) - unat index)"
    by simp
qed

declare replayLog.simps [simp del]

definition createInternalSubs :: "string \<Rightarrow> string \<Rightarrow> string \<Rightarrow> string \<Rightarrow> raft \<Rightarrow> raft" where
  "createInternalSubs cn grp vsuffix asuffix n =
     (let n1 = n\<lparr>vsubj := ''$NRG.V.'' @ cn @ ''.'' @ grp, vreply := newInbox vsuffix,
                  asubj := ''$NRG.E.'' @ cn @ ''.'' @ grp, areply := newInbox asuffix,
                  psubj := ''$NRG.P.'' @ grp\<rparr>
      in n1\<lparr>subs := subs n1 @ [vreply n1, vsubj n1, areply n1, asubj n1]\<rparr>)"

text \<open>
  \<^verbatim>\<open>startRaftNode\<close>. \<open>sysReady\<close> says that the server has its system account and send
  queue, \<open>hash\<close> is the server's hash, \<open>cn\<close> the cluster name, \<open>spare\<close> the spare
  capacity of the buffer the peer-state file is read into. The term and vote read from
  disk are adopted under the source's condition \<^verbatim>\<open>err != nil && term > 0\<close>. The final
  send of nil on the apply channel blocks for good if the channel is full.
\<close>

definition startRaftNode ::
  "int \<Rightarrow> (u64 \<Rightarrow> string) \<Rightarrow> string \<Rightarrow> string \<Rightarrow> bytes \<Rightarrow> bool \<Rightarrow> bytes \<Rightarrow> string \<Rightarrow>
   RaftConfig option \<Rightarrow> fault + (raftError + raft)" where
  "startRaftNode now sfx vsuffix asuffix spare sysReady hash cn cfg =
     (case cfg of
        None \<Rightarrow> Inr (Inl errNilCfg)
      | Some c \<Rightarrow>
          if \<not> sysReady then Inr (Inl errNoSysAccount)
          else
            (case readPeerState (StorePeers c) spare of
               Inl f \<Rightarrow> Inl f
             | Inr (Inl err) \<Rightarrow> Inr (Inl err)
             | Inr (Inr ps) \<Rightarrow>
                 if clusterSize ps < 2 then Inr (Inl errClusterTooSmall)
                 else if length hash < idLen then Inl IndexOutOfRange
                 else
                   (let n = \<lparr>nodeId = take idLen hash, wal = Log c, state = Follower,
                             csz = clusterSize ps, qn = go_div (clusterSize ps) 2 + 1,
                             peers = [], acks = Map.empty, elect = [], active = 0,
                             curTerm = 0, pterm = 0, pindex = 0, sindex = 0, commit = 0,
                             applied = 0, leader = noLeader, vote = noVote, psubj = [],
                             vsubj = [], vreply = [], asubj = [], areply = [],
                             catchup = None, progress = Map.empty, paused = False,
                             hcommit = 0, propc = [], applyc = [], applycCap = 512,
                             sendq = [], quit = False, reqs = [], votes = [], resp = [],
                             leadc = [], stepdown = [], peersFile = StorePeers c,
                             tavFile = StoreTav c, subs = []\<rparr>;
                        n1 = (case readTermVote n of
                                (term, voted, err) \<Rightarrow>
                                  if err \<noteq> None \<and> 0 < term
                                  then n\<lparr>curTerm := term, vote := voted\<rparr> else n)
                    in case (if 0 < Msgs (wal n1) then
                               (case (case loadFirstEntry n1 of
                                        Inl f \<Rightarrow> Inl f
                                      | Inr (Inl err) \<Rightarrow> Inr n1
                                      | Inr (Inr None) \<Rightarrow> Inl NilDereference
                                      | Inr (Inr (Some first)) \<Rightarrow>
                                          Inr (n1\<lparr>pterm := ae_pterm first,
                                                  pindex := ae_pindex first,
                                                  commit := (if 0 < ae_commit first
                                                             then ae_commit first
                                                             else commit n1)\<rparr>)) of
                                  Inl f \<Rightarrow> Inl f
                                | Inr n2 \<Rightarrow>
                                    replayLog now sfx (FirstSeq (wal n2)) (LastSeq (wal n2))
                                      (if applycCap n2 < Msgs (wal n2) + 1
                                       then n2\<lparr>applyc := [], applycCap := Msgs (wal n2) + 1\<rparr>
                                       else n2))
                             else Inr n1) of
                         Inl f \<Rightarrow> Inl f
                       | Inr n3 \<Rightarrow>
                           (case trySend (applycCap n3) (applyc n3) None of
                              None \<Rightarrow> Inl Diverges
                            | Some ch \<Rightarrow>
                                (case trackPeer now (nodeId n3)
                                        (createInternalSubs cn (Name c) vsuffix asuffix
                                           (n3\<lparr>applyc := ch\<rparr>)) of
                                   Inl f \<Rightarrow> Inl f
                                 | Inr (err, n4) \<Rightarrow>
                                     Inr (Inr (resetElectionTimeout
                                       (n4\<lparr>peers :=
                                            fold (\<lambda>peer al.
                                                    if peer = nodeId n4 then al
                                                    else AList.update peer \<lparr>ts = 0, li = 0\<rparr> al)
                                              (knownPeers ps) (peers n4)\<rparr>))))))))"

section \<open>Describing what the apply loop delivers\<close>

text \<open>
  The entries of a batch that \<^verbatim>\<open>applyCommit\<close> hands to the upper layer: the normal and
  the snapshot entries, in order.
\<close>

definition deliverable :: "Entry list \<Rightarrow> Entry list" where
  "deliverable es = filter (\<lambda>e. Type e = EntryNormal \<or> Type e = EntrySnapshot) es"

text \<open>Every peer-state entry of the batch decodes without a panic.\<close>

definition peerStatesDecode :: "Entry list \<Rightarrow> bool" where
  "peerStatesDecode es =
     list_all (\<lambda>e. if Type e = EntryPeerState
                    then \<not> isl (decodePeerState (Data e) (DataSpare e)) else True) es"

text \<open>
  The record at index \<open>i\<close> of the log loads and decodes to an append entry whose
  peer-state entries decode.
\<close>

definition appliesCleanly :: "WAL \<Rightarrow> u64 \<Rightarrow> bool" where
  "appliesCleanly w i =
     (case LoadMsg w i of
        Inl err \<Rightarrow> False
      | Inr msg \<Rightarrow>
          (case decodeAppendEntry msg [] [] of
             Inr (Some ae) \<Rightarrow> peerStatesDecode (ae_entries ae)
           | _ \<Rightarrow> False))"

text \<open>
  The apply record that index \<open>i\<close> of the log gives rise to: none when the batch has no
  normal or snapshot entry, else one record with these entries.
\<close>

definition recordAt :: "WAL \<Rightarrow> u64 \<Rightarrow> CommittedEntry option list" where
  "recordAt w i =
     (case LoadMsg w i of
        Inl err \<Rightarrow> []
      | Inr msg \<Rightarrow>
          (case decodeAppendEntry msg [] [] of
             Inr (Some ae) \<Rightarrow>
               if deliverable (ae_entries ae) = [] then []
               else [Some \<lparr>Index = i, Entries = deliverable (ae_entries ae)\<rparr>]
           | _ \<Rightarrow> []))"

text \<open>The indices \<open>lo, lo + 1, ..., hi\<close>.\<close>

definition indexRange :: "u64 \<Rightarrow> u64 \<Rightarrow> u64 list" where
  "indexRange lo hi = map of_nat [unat lo ..< Suc (unat hi)]"

section \<open>Example states\<close>

text \<open>
  A node \<open>A\<close> of a three-node cluster with peers \<open>B\<close> and \<open>C\<close>, as
  \<^verbatim>\<open>startRaftNode\<close> leaves it on an empty log: follower, term 0, quorum 2.
\<close>

definition emptyWAL :: WAL where
  "emptyWAL = \<lparr>wmsgs = [], FirstSeq = 0, LastSeq = 0, wclosed = False, compactCalls = []\<rparr>"

definition idA :: bytes where "idA = [65, 65, 65, 65, 65, 65, 65, 65]"
definition idB :: bytes where "idB = [66, 66, 66, 66, 66, 66, 66, 66]"
definition idC :: bytes where "idC = [67, 67, 67, 67, 67, 67, 67, 67]"

definition node0 :: raft where
  "node0 = \<lparr>nodeId = idA, wal = emptyWAL, state = Follower, csz = 3, qn = 2,
     peers = [(idA, \<lparr>ts = 0, li = 0\<rparr>), (idB, \<lparr>ts = 0, li = 0\<rparr>), (idC, \<lparr>ts = 0, li = 0\<rparr>)],
     acks = Map.empty, elect = [ElectionTimeout], active = 0, curTerm = 0, pterm = 0,
     pindex = 0, sindex = 0, commit = 0, applied = 0, leader = noLeader, vote = noVote,
     psubj = ''$NRG.P.G'', vsubj = ''$NRG.V.C.G'', vreply = ''$NRG.R.vvvvvvvv'',
     asubj = ''$NRG.E.C.G'', areply = ''$NRG.R.aaaaaaaa'', catchup = None,
     progress = Map.empty, paused = False, hcommit = 0, propc = [], applyc = [],
     applycCap = 512, sendq = [], quit = False, reqs = [], votes = [], resp = [],
     leadc = [], stepdown = [], peersFile = None, tavFile = None,
     subs = [''$NRG.R.vvvvvvvv'', ''$NRG.V.C.G'', ''$NRG.R.aaaaaaaa'', ''$NRG.E.C.G'']\<rparr>"

definition idD :: bytes where "idD = [68, 68, 68, 68, 68, 68, 68, 68]"
definition idE :: bytes where "idE = [69, 69, 69, 69, 69, 69, 69, 69]"

text \<open>Wire values: an append entry from \<open>B\<close> carrying one normal entry, and replies.\<close>

definition aeX :: appendEntry where
  "aeX = \<lparr>ae_leader = idB, ae_term = 1, ae_commit = 0, ae_pterm = 0, ae_pindex = 0,
     ae_entries = [\<lparr>Type = EntryNormal, Data = [120], DataSpare = []\<rparr>],
     ae_reply = ''$NRG.R.bbbbbbbb'', ae_buf = None\<rparr>"

definition arX :: appendEntryResponse where
  "arX = \<lparr>ar_term = 1, ar_index = 1, ar_peer = idB, ar_success = True, ar_reply = []\<rparr>"

definition vrX :: voteRequest where
  "vrX = \<lparr>vr_term = 3, vr_lastTerm = 1, vr_lastIndex = 5, vr_candidate = idB,
     vr_reply = ''$NRG.R.bbbbbbbb''\<rparr>"

definition vrespX :: voteResponse where
  "vrespX = \<lparr>vresp_term = 3, vresp_peer = idB, vresp_granted = True\<rparr>"

definition psABC :: peerState where
  "psABC = \<lparr>knownPeers = [idA, idB, idC], clusterSize = 3\<rparr>"

text \<open>
  A store directory whose term/vote file records term 5 and a vote for \<open>B\<close>, with an
  empty log.
\<close>

definition cfgTav :: RaftConfig where
  "cfgTav = \<lparr>Name = ''G'', StorePeers = Some (encodePeerState psABC),
     StoreTav = Some (PutUint64 5 @ idB), Log = emptyWAL\<rparr>"

text \<open>
  A follower whose log holds, at index 1, an append entry with one peer-state entry that
  announces a cluster of five.
\<close>

definition ps5 :: peerState where
  "ps5 = \<lparr>knownPeers = [idA, idB, idC, idD, idE], clusterSize = 5\<rparr>"

definition aePS :: appendEntry where
  "aePS = \<lparr>ae_leader = idB, ae_term = 1, ae_commit = 0, ae_pterm = 0, ae_pindex = 0,
     ae_entries = [\<lparr>Type = EntryPeerState, Data = encodePeerState ps5, DataSpare = []\<rparr>],
     ae_reply = [], ae_buf = None\<rparr>"

definition nodePS :: raft where
  "nodePS = node0\<lparr>wal := \<lparr>wmsgs = [(1, ae_encode aePS)], FirstSeq = 1, LastSeq = 1,
                           wclosed = False, compactCalls = []\<rparr>,
                  pterm := 1, pindex := 1\<rparr>"

text \<open>
  A follower in term 3 that has voted for \<open>B\<close> and whose log has since grown to index
  10; \<open>vrX\<close> is a vote request of \<open>B\<close> for term 3 whose log ends at index 5.
\<close>

definition nodeV :: raft where
  "nodeV = node0\<lparr>curTerm := 3, vote := idB, pterm := 3, pindex := 10\<rparr>"

text \<open>
  A follower whose log holds the append entry \<open>aeX\<close> at index 1 and whose apply
  channel is full.
\<close>

definition walX :: WAL where
  "walX = \<lparr>wmsgs = [(1, ae_encode aeX)], FirstSeq = 1, LastSeq = 1, wclosed = False,
           compactCalls = []\<rparr>"

definition nodeFull :: raft where
  "nodeFull = node0\<lparr>wal := walX, pterm := 1, pindex := 1, applyc := replicate 512 None\<rparr>"

section \<open>Compaction on a leader\<close>

text \<open>
  C10. \<^verbatim>\<open>Compact(index)\<close> on a leader leaves the whole node state unchanged, the
  write-ahead log and its record of \<^verbatim>\<open>Compact\<close> calls included, and returns nil when
  every peer other than the node itself has a last-replicated index of at least
  \<open>index\<close>. For any node, if \<^verbatim>\<open>Compact\<close> did call the log's \<^verbatim>\<open>Compact\<close>, then
  the node was not the leader.
\<close>

theorem Compact_leader_never_compacts:
  "(state n = Leader \<longrightarrow>
      snd (Compact index n) = n \<and>
      ((\<forall>p \<in> set (peers n). fst p \<noteq> nodeId n \<longrightarrow> index \<le> li (snd p))
         \<longrightarrow> fst (Compact index n) = None)) \<and>
   (compactCalls (wal (snd (Compact index n))) \<noteq> compactCalls (wal n) \<longrightarrow> state n \<noteq> Leader)"
proof (intro conjI impI)
  assume L: "state n = Leader"
  then show "snd (Compact index n) = n"
    by (simp add: Compact_def)
  assume cur: "\<forall>p \<in> set (peers n). fst p \<noteq> nodeId n \<longrightarrow> index \<le> li (snd p)"
  have "\<not> list_ex (\<lambda>(peer, ps). peer \<noteq> nodeId n \<and> li ps < index) (peers n)"
  proof
    assume "list_ex (\<lambda>(peer, ps). peer \<noteq> nodeId n \<and> li ps < index) (peers n)"
    then obtain p where "p \<in> set (peers n)" "fst p \<noteq> nodeId n" "li (snd p) < index"
      by (auto simp: list_ex_iff)
    with cur show False
      by (auto simp: not_le [symmetric])
  qed
  with L show "fst (Compact index n) = None"
    by (simp add: Compact_def)
next
  assume ch: "compactCalls (wal (snd (Compact index n))) \<noteq> compactCalls (wal n)"
  show "state n \<noteq> Leader"
  proof
    assume "state n = Leader"
    then have "snd (Compact index n) = n"
      by (simp add: Compact_def)
    with ch show False by simp
  qed
qed

theorem Compact_leader_never_compacts_witness:
  "state (node0\<lparr>state := Leader\<rparr>) = Leader \<and>
   Compact 0 (node0\<lparr>state := Leader\<rparr>) = (None, node0\<lparr>state := Leader\<rparr>) \<and>
   compactCalls (wal (snd (Compact 7 node0))) \<noteq> compactCalls (wal node0) \<and>
   state node0 \<noteq> Leader"
  using Compact_leader_never_compacts [of "node0\<lparr>state := Leader\<rparr>" 0]
    Compact_leader_never_compacts [of node0 7]
  apply (simp add: node0_def prod_eq_iff)
  apply (simp add: Compact_def wal_Compact_def emptyWAL_def)
  done

section \<open>Wire codecs\<close>

lemma length_le_put [simp]: "length (le_put k v) = k"
  by (induction k arbitrary: v) auto

lemma le_get_put: "le_get (le_put k v) = take_bit (8 * k) v"
proof (induction k arbitrary: v)
  case 0
  then show ?case by simp
next
  case (Suc k)
  show ?case
    apply (simp add: Suc)
    apply (rule bit_word_eqI)
    apply (auto simp: bit_simps)
    done
qed

lemma length_PutUint [simp]:
  "length (PutUint16 a) = 2" "length (PutUint32 b) = 4" "length (PutUint64 c) = 8"
  by (simp_all add: PutUint16_def PutUint32_def PutUint64_def)

lemma le_get_PutUint [simp]:
  "le_get (PutUint16 a) = a" "le_get (PutUint32 b) = b" "le_get (PutUint64 c) = c"
  by (simp_all add: PutUint16_def PutUint32_def PutUint64_def le_get_put take_bit_word_eq_self)

lemma copy_zeroed_id [simp]: "length p = k \<Longrightarrow> copy_zeroed k p = p"
  by (simp add: copy_zeroed_def)

lemma ar_roundtrip:
  "length (ar_peer ar) = idLen \<Longrightarrow>
   decodeAppendEntryResponse (ar_encode ar) = Some (ar\<lparr>ar_reply := []\<rparr>)"
  by (simp add: decodeAppendEntryResponse_def ar_encode_def appendEntryResponseLen_def idLen_def
      nth_append)

lemma vr_roundtrip:
  "length (vr_candidate vr) = idLen \<Longrightarrow>
   decodeVoteRequest (vr_encode vr) reply = Some (vr\<lparr>vr_reply := reply\<rparr>)"
  by (simp add: decodeVoteRequest_def vr_encode_def voteRequestLen_def idLen_def)

lemma vresp_roundtrip:
  "length (vresp_peer vr) = idLen \<Longrightarrow> decodeVoteResponse (vresp_encode vr) = Some vr"
  by (simp add: decodeVoteResponse_def vresp_encode_def voteResponseLen_def idLen_def nth_append)

lemma copy_at_exact:
  "length buf = wi + length src + k \<Longrightarrow>
   copy_at buf wi src = take wi buf @ src @ drop (wi + length src) buf"
  by (simp add: copy_at_def Let_def)

lemma writePeers_concat:
  "\<lbrakk>\<forall>p \<in> set ps. length p = idLen; length buf = wi + idLen * length ps\<rbrakk>
   \<Longrightarrow> writePeers buf wi ps = take wi buf @ concat ps"
proof (induction ps arbitrary: buf wi)
  case Nil
  then show ?case by simp
next
  case (Cons p ps)
  have lp: "length p = idLen" using Cons.prems(1) by simp
  have len: "length buf = wi + length p + idLen * length ps"
    using Cons.prems(2) lp by simp
  have c: "copy_at buf wi p = take wi buf @ p @ drop (wi + length p) buf"
    using copy_at_exact [OF len] .
  have "writePeers (copy_at buf wi p) (wi + idLen) ps
        = take (wi + idLen) (copy_at buf wi p) @ concat ps"
  proof (rule Cons.IH)
    show "\<forall>p \<in> set ps. length p = idLen" using Cons.prems(1) by simp
    show "length (copy_at buf wi p) = wi + idLen + idLen * length ps"
      using len lp by (simp add: c)
  qed
  moreover have "take (wi + idLen) (copy_at buf wi p) = take wi buf @ p"
    using len lp by (simp add: c)
  ultimately show ?case by simp
qed

lemma encodePeerState_concat:
  "\<forall>p \<in> set (knownPeers ps). length p = idLen \<Longrightarrow>
   encodePeerState ps =
     PutUint32 (word_of_int (clusterSize ps)) @ PutUint32 (of_nat (length (knownPeers ps))) @
     concat (knownPeers ps)"
  by (simp add: encodePeerState_def writePeers_concat idLen_def)

lemma decodePeers_concat:
  "\<forall>p \<in> set ps. length p = idLen \<Longrightarrow>
   decodePeers (length ps) (length pre) (pre @ concat ps) spare = Inr ps"
proof (induction ps arbitrary: pre)
  case Nil
  then show ?case by simp
next
  case (Cons p ps)
  have lp: "length p = idLen" using Cons.prems by simp
  have ih: "decodePeers (length ps) (length (pre @ p)) ((pre @ p) @ concat ps) spare = Inr ps"
    using Cons.IH [of "pre @ p"] Cons.prems by simp
  have pos: "0 < idLen" by (simp add: idLen_def)
  show ?case
    using ih lp pos by (simp add: slice_of_def)
qed

lemma peerState_roundtrip:
  assumes ids: "\<forall>p \<in> set (knownPeers ps). length p = idLen"
    and csz: "0 \<le> clusterSize ps" "clusterSize ps < 2 ^ 32"
    and cnt: "length (knownPeers ps) < 2 ^ 32"
  shows "decodePeerState (encodePeerState ps) spare = Inr (Inr ps)"
proof -
  have u1: "uint (word_of_int (clusterSize ps) :: u32) = clusterSize ps"
    using csz by (simp add: uint_word_of_int)
  have u2: "unat (of_nat (length (knownPeers ps)) :: u32) = length (knownPeers ps)"
    using cnt by (simp add: unat_of_nat)
  have d: "decodePeers (length (knownPeers ps)) (length ([]::bytes))
             ([] @ concat (knownPeers ps)) spare = Inr (knownPeers ps)"
    using ids by (rule decodePeers_concat)
  show ?thesis
    using d by (simp add: decodePeerState_def encodePeerState_concat [OF ids] u1 u2)
qed

lemma length_encodeEntry [simp]: "length (encodeEntry e) = length (Data e) + 5"
  by (simp add: encodeEntry_def)

lemma decodeEntries_concat:
  assumes "\<forall>e \<in> set es. length (Data e) + 1 < 2 ^ 32"
  shows "\<exists>ds. decodeEntries (length es) (length pre) (pre @ concat (map encodeEntry es)) spare
               = Inr ds \<and>
              map Type ds = map Type es \<and> map Data ds = map Data es"
  using assms
proof (induction es arbitrary: pre)
  case Nil
  then show ?case by simp
next
  case (Cons e es)
  let ?rest = "concat (map encodeEntry es)"
  let ?msg = "pre @ encodeEntry e @ ?rest"
  have bound: "length (Data e) + 1 < 2 ^ 32" using Cons.prems by simp
  have "unat (of_nat (length (Data e) + 1) :: u32) = (length (Data e) + 1) mod 2 ^ LENGTH(32)"
    by (rule unat_of_nat)
  with bound have le: "unat (of_nat (length (Data e) + 1) :: u32) = length (Data e) + 1"
    by simp
  obtain ds where ds:
    "decodeEntries (length es) (length (pre @ encodeEntry e)) ((pre @ encodeEntry e) @ ?rest) spare
       = Inr ds"
    "map Type ds = map Type es" "map Data ds = map Data es"
    using Cons.IH [of "pre @ encodeEntry e"] Cons.prems by auto
  have ds1: "decodeEntries (length es) (length (pre @ encodeEntry e)) ?msg spare = Inr ds"
    using ds(1) by simp
  have c1: "\<not> length ?msg < length pre" by simp
  have u: "Uint32 (drop (length pre) ?msg) = Inr (of_nat (length (Data e) + 1))"
    by (simp add: Uint32_def encodeEntry_def)
  have c2: "\<not> length ?msg \<le> length pre + 4" by simp
  have ty: "?msg ! (length pre + 4) = Type e"
    by (simp add: nth_append encodeEntry_def)
  have sl: "slice_of ?msg spare (length pre + 4 + 1) (length (pre @ encodeEntry e))
            = Inr (Data e)"
    by (simp add: slice_of_def encodeEntry_def)
  have nxt: "length pre + 4 + (length (Data e) + 1) = length (pre @ encodeEntry e)"
    by simp
  have "decodeEntries (Suc (length es)) (length pre) ?msg spare
        = Inr (\<lparr>Type = Type e, Data = Data e,
                 DataSpare = drop (length (pre @ encodeEntry e)) (?msg @ spare)\<rparr> # ds)"
    by (simp only: decodeEntries.simps c1 if_False u sum.case Let_def le c2 sl ty nxt ds1)
  then have "decodeEntries (length (e # es)) (length pre)
               (pre @ concat (map encodeEntry (e # es))) spare
        = Inr (\<lparr>Type = Type e, Data = Data e,
                 DataSpare = drop (length (pre @ encodeEntry e)) (?msg @ spare)\<rparr> # ds)"
    by simp
  with ds(2,3) show ?case by simp
qed

lemma appendEntry_roundtrip:
  assumes ld: "length (ae_leader ae) = idLen"
    and cnt: "length (ae_entries ae) < 2 ^ 16"
    and lens: "\<forall>e \<in> set (ae_entries ae). length (Data e) + 1 < 2 ^ 32"
  shows "\<exists>es. decodeAppendEntry (ae_encode ae) spare reply
                 = Inr (Some (ae\<lparr>ae_entries := es, ae_reply := reply,
                                   ae_buf := Some (ae_encode ae)\<rparr>)) \<and>
              map Type es = map Type (ae_entries ae) \<and> map Data es = map Data (ae_entries ae)"
proof -
  let ?hdr = "copy_zeroed idLen (ae_leader ae) @
     PutUint64 (ae_term ae) @ PutUint64 (ae_commit ae) @
     PutUint64 (ae_pterm ae) @ PutUint64 (ae_pindex ae) @
     PutUint16 (of_nat (length (ae_entries ae)))"
  have enc: "ae_encode ae = ?hdr @ concat (map encodeEntry (ae_entries ae))"
    by (simp add: ae_encode_def)
  have lh: "length ?hdr = 42" using ld by (simp add: idLen_def)
  obtain es where es:
    "decodeEntries (length (ae_entries ae)) (length ?hdr)
       (?hdr @ concat (map encodeEntry (ae_entries ae))) spare = Inr es"
    "map Type es = map Type (ae_entries ae)" "map Data es = map Data (ae_entries ae)"
    using decodeEntries_concat [OF lens, of ?hdr spare] by auto
  have ne: "unat (of_nat (length (ae_entries ae)) :: u16) = length (ae_entries ae)"
    using cnt by (simp add: unat_of_nat)
  have "decodeAppendEntry (ae_encode ae) spare reply
        = Inr (Some (ae\<lparr>ae_entries := es, ae_reply := reply, ae_buf := Some (ae_encode ae)\<rparr>))"
    using es(1) ld unfolding lh
    by (simp add: decodeAppendEntry_def enc appendEntryBaseLen_def idLen_def ne)
  with es(2,3) show ?thesis by blast
qed

text \<open>
  C8. For each of the five wire formats, decoding the encoded bytes gives back the value:
  for an append entry with an 8-byte leader id, fewer than \<open>2^16\<close> entries and every
  entry's length plus one below \<open>2^32\<close>, the decoded message has the same leader, term,
  commit, pterm and pindex and entries of the same types and data (its internal fields
  hold the reply subject passed to the decoder and the message buffer); for an
  append-entry response, a vote request and a vote response with an 8-byte id, the
  decoded value is the original (the response's internal reply subject is empty, the
  request's is the one passed in); for a peer state with 8-byte peer ids and a cluster
  size and peer count that fit the format's 32-bit fields, decoding gives the original.
\<close>

theorem wire_roundtrip:
  "(length (ae_leader ae) = idLen \<and> length (ae_entries ae) < 2 ^ 16 \<and>
      (\<forall>e \<in> set (ae_entries ae). length (Data e) + 1 < 2 ^ 32) \<longrightarrow>
      (\<exists>es. decodeAppendEntry (ae_encode ae) spare reply
               = Inr (Some (ae\<lparr>ae_entries := es, ae_reply := reply,
                                 ae_buf := Some (ae_encode ae)\<rparr>)) \<and>
            map Type es = map Type (ae_entries ae) \<and>
            map Data es = map Data (ae_entries ae))) \<and>
   (length (ar_peer ar) = idLen \<longrightarrow>
      decodeAppendEntryResponse (ar_encode ar) = Some (ar\<lparr>ar_reply := []\<rparr>)) \<and>
   (length (vr_candidate vr) = idLen \<longrightarrow>
      decodeVoteRequest (vr_encode vr) reply' = Some (vr\<lparr>vr_reply := reply'\<rparr>)) \<and>
   (length (vresp_peer vresp) = idLen \<longrightarrow>
      decodeVoteResponse (vresp_encode vresp) = Some vresp) \<and>
   ((\<forall>p \<in> set (knownPeers ps). length p = idLen) \<and> 0 \<le> clusterSize ps \<and>
      clusterSize ps < 2 ^ 32 \<and> length (knownPeers ps) < 2 ^ 32 \<longrightarrow>
      decodePeerState (encodePeerState ps) spare' = Inr (Inr ps))"
  using appendEntry_roundtrip [of ae spare reply] ar_roundtrip [of ar]
    vr_roundtrip [of vr reply'] vresp_roundtrip [of vresp] peerState_roundtrip [of ps spare']
  by blast

theorem wire_roundtrip_witness:
  "(\<exists>es. decodeAppendEntry (ae_encode aeX) [] ''$NRG.R.bbbbbbbb''
            = Inr (Some (aeX\<lparr>ae_entries := es, ae_reply := ''$NRG.R.bbbbbbbb'',
                               ae_buf := Some (ae_encode aeX)\<rparr>)) \<and>
         map Type es = [EntryNormal] \<and> map Data es = [[120]]) \<and>
   decodeAppendEntryResponse (ar_encode arX) = Some arX \<and>
   decodeVoteRequest (vr_encode vrX) ''$NRG.R.bbbbbbbb'' = Some vrX \<and>
   decodeVoteResponse (vresp_encode vrespX) = Some vrespX \<and>
   decodePeerState (encodePeerState psABC) [] = Inr (Inr psABC)"
proof -
  have h1: "length (ae_leader aeX) = idLen \<and> length (ae_entries aeX) < 2 ^ 16 \<and>
      (\<forall>e \<in> set (ae_entries aeX). length (Data e) + 1 < 2 ^ 32)"
    by (simp add: aeX_def idB_def idLen_def)
  have h2: "length (ar_peer arX) = idLen" "length (vr_candidate vrX) = idLen"
      "length (vresp_peer vrespX) = idLen"
    by (simp_all add: arX_def vrX_def vrespX_def idB_def idLen_def)
  have h3: "(\<forall>p \<in> set (knownPeers psABC). length p = idLen) \<and> 0 \<le> clusterSize psABC \<and>
      clusterSize psABC < 2 ^ 32 \<and> length (knownPeers psABC) < 2 ^ 32"
    by (simp add: psABC_def idA_def idB_def idC_def idLen_def)
  have e: "map Type (ae_entries aeX) = [EntryNormal]" "map Data (ae_entries aeX) = [[120]]"
      "arX\<lparr>ar_reply := []\<rparr> = arX" "vrX\<lparr>vr_reply := ''$NRG.R.bbbbbbbb''\<rparr> = vrX"
    by (simp_all add: aeX_def arX_def vrX_def)
  from wire_roundtrip [of aeX "[]" "''$NRG.R.bbbbbbbb''" arX vrX "''$NRG.R.bbbbbbbb''" vrespX psABC "[]"]
    h1 h2 h3
  show ?thesis unfolding e by blast
qed

section \<open>Malformed transport messages\<close>

text \<open>
  C9. A 42-byte append-entry message whose entry count is 1 and that carries no entry
  bytes: \<^verbatim>\<open>decodeAppendEntry\<close> reads the entry length past the end of the message and
  panics, so \<^verbatim>\<open>handleAppendEntry\<close> faults instead of dropping the message, whatever
  the node state and the spare capacity of the buffer.
\<close>

theorem handleAppendEntry_faults_on_missing_entry:
  "handleAppendEntry now suffix sub reply (replicate 40 0 @ [1, 0]) spare n = Inl IndexOutOfRange"
  by (simp add: handleAppendEntry_def decodeAppendEntry_def appendEntryBaseLen_def idLen_def
      Uint32_def)

section \<open>Term and vote at start\<close>

text \<open>
  C5. Started on a store whose term/vote file reads back as term 5 and a vote for \<open>B\<close>,
  with an empty log, the node comes up with term 0 and no vote: the file is present and
  well-formed, and \<^verbatim>\<open>startRaftNode\<close> does not take its values.
\<close>

theorem startRaftNode_ignores_term_vote_file:
  "readTermVote (node0\<lparr>tavFile := StoreTav cfgTav\<rparr>) = (5, idB, None) \<and>
   (case startRaftNode 0 (\<lambda>i. []) ''vvvvvvvv'' ''aaaaaaaa'' [] True (idA @ idA) ''C''
           (Some cfgTav) of
      Inr (Inr n) \<Rightarrow> curTerm n = 0 \<and> vote n = noVote \<and> tavFile n = StoreTav cfgTav
    | _ \<Rightarrow> False)"
  by code_simp

section \<open>Quorum after a membership apply\<close>

text \<open>
  C3. Applying index 1 of \<open>nodePS\<close>, whose entry is a peer state announcing a cluster
  of five, succeeds and sets the cluster size to 5 while the quorum stays 2, which is
  not \<open>5 / 2 + 1\<close>.
\<close>

theorem applyCommit_PeerState_keeps_old_quorum:
  "(case applyCommit 0 1 nodePS of
      Inr (err, n) \<Rightarrow>
        err = None \<and> commit n = 1 \<and> csz n = 5 \<and> qn n = 2 \<and> qn n \<noteq> go_div (csz n) 2 + 1
    | _ \<Rightarrow> False)"
  by code_simp

section \<open>Granting a vote\<close>

text \<open>
  C2. \<open>nodeV\<close> has voted for \<open>B\<close> in term 3 and its log ends at index 10. A vote
  request of \<open>B\<close> for term 3 whose last index is 5, below the node's, is granted: the
  vote stays with \<open>B\<close> and the one reply sent says granted.
\<close>

theorem processVoteRequest_grants_behind_candidate:
  "vr_lastIndex vrX < pindex nodeV \<and>
   (case processVoteRequest 0 vrX nodeV of
      Inr (err, n) \<Rightarrow>
        err = None \<and> vote n = idB \<and>
        map (\<lambda>m. decodeVoteResponse (pm_msg m)) (sendq n) =
          [Some \<lparr>vresp_term = 3, vresp_peer = idA, vresp_granted = True\<rparr>]
    | _ \<Rightarrow> False)"
  by code_simp

section \<open>The apply step\<close>

lemma entry_types_distinct [simp]:
  "EntryNormal \<noteq> EntrySnapshot" "EntryNormal \<noteq> EntryPeerState" "EntryNormal \<noteq> EntryAddPeer"
  "EntrySnapshot \<noteq> EntryPeerState" "EntrySnapshot \<noteq> EntryAddPeer"
  "EntryPeerState \<noteq> EntryAddPeer"
  "EntrySnapshot \<noteq> EntryNormal" "EntryPeerState \<noteq> EntryNormal" "EntryAddPeer \<noteq> EntryNormal"
  "EntryPeerState \<noteq> EntrySnapshot" "EntryAddPeer \<noteq> EntrySnapshot"
  "EntryAddPeer \<noteq> EntryPeerState"
  by (simp_all add: EntryNormal_def EntrySnapshot_def EntryPeerState_def EntryAddPeer_def)

lemma applyEntries_committed:
  "applyEntries now es c n = Inr (c', n') \<Longrightarrow> c' = c @ deliverable es"
proof (induction es arbitrary: c n)
  case Nil
  then show ?case by (simp add: deliverable_def)
next
  case (Cons e es)
  show ?case
  proof (cases "Type e = EntryNormal \<or> Type e = EntrySnapshot")
    case True
    then have "applyEntries now es (c @ [e]) n = Inr (c', n')"
      using Cons.prems by auto
    from Cons.IH [OF this] True show ?thesis
      by (auto simp: deliverable_def)
  next
    case False
    then obtain m where "applyEntries now es c m = Inr (c', n')"
      using Cons.prems by (auto simp: Let_def split: if_splits sum.splits)
    from Cons.IH [OF this] False show ?thesis
      by (auto simp: deliverable_def)
  qed
qed

lemma applyEntries_frame:
  "applyEntries now es c n = Inr (c', n') \<Longrightarrow>
   n' = n\<lparr>csz := csz n', qn := qn n', peers := peers n', peersFile := peersFile n'\<rparr>"
proof (induction es arbitrary: c n)
  case Nil
  then show ?case by simp
next
  case (Cons e es)
  show ?case
  proof (cases "Type e = EntryNormal \<or> Type e = EntrySnapshot")
    case True
    then have "applyEntries now es (c @ [e]) n = Inr (c', n')"
      using Cons.prems by auto
    then show ?thesis by (rule Cons.IH)
  next
    case False
    then obtain m where m: "applyEntries now es c m = Inr (c', n')"
      and mf: "m = n\<lparr>csz := csz m, qn := qn m, peers := peers m, peersFile := peersFile m\<rparr>"
      using Cons.prems
      by (auto simp: Let_def processPeerState_def writePeerState_def split: if_splits sum.splits)
    from Cons.IH [OF m]
    have "n' = m\<lparr>csz := csz n', qn := qn n', peers := peers n', peersFile := peersFile n'\<rparr>" .
    then have "n' = (n\<lparr>csz := csz m, qn := qn m, peers := peers m, peersFile := peersFile m\<rparr>)
                        \<lparr>csz := csz n', qn := qn n', peers := peers n', peersFile := peersFile n'\<rparr>"
      using mf by simp
    then show ?thesis by simp
  qed
qed

lemma applyEntries_total:
  "peerStatesDecode es \<Longrightarrow> \<exists>c' n'. applyEntries now es c n = Inr (c', n')"
proof (induction es arbitrary: c n)
  case Nil
  then show ?case by simp
next
  case (Cons e es)
  then have rest: "peerStatesDecode es"
    by (simp add: peerStatesDecode_def)
  show ?case
  proof (cases "Type e = EntryPeerState")
    case True
    then have "\<not> isl (decodePeerState (Data e) (DataSpare e))"
      using Cons.prems by (simp add: peerStatesDecode_def)
    then obtain r where r: "decodePeerState (Data e) (DataSpare e) = Inr r"
      by (cases "decodePeerState (Data e) (DataSpare e)") auto
    show ?thesis
      using True r Cons.IH [OF rest] by (cases r) simp_all
  next
    case False
    then show ?thesis
      using Cons.IH [OF rest] by (simp add: Let_def)
  qed
qed

lemma applyCommit_already: "index \<le> commit n \<Longrightarrow> applyCommit now index n = Inr (None, n)"
  by (simp add: applyCommit_def)

lemma applyCommit_load_failed:
  assumes "commit n < index" "isl (LoadMsg (wal n) index)"
  shows "\<exists>n'. applyCommit now index n = Inr (Some errEntryLoadFailed, n') \<and> commit n' = commit n"
proof -
  obtain err where "LoadMsg (wal n) index = Inl err"
    using assms(2) by (cases "LoadMsg (wal n) index") auto
  then show ?thesis
    using assms(1) by (simp add: applyCommit_def Let_def loadEntry_def not_le [symmetric])
qed

lemma applyCommit_error_keeps_commit:
  "applyCommit now index n = Inr (Some err, n') \<Longrightarrow> commit n' = commit n"
  by (auto simp: applyCommit_def Let_def split: if_splits sum.splits option.splits prod.splits)

lemma loadEntry_wal: "wal m = wal n \<Longrightarrow> loadEntry index m = loadEntry index n"
  by (simp add: loadEntry_def)

lemma applyCommit_channel_full:
  assumes gt: "commit n < index"
    and ld: "loadEntry index n = Inr (Inr (Some ae))"
    and ok: "peerStatesDecode (ae_entries ae)"
    and nonempty: "deliverable (ae_entries ae) \<noteq> []"
    and full: "applycCap n \<le> length (applyc n)"
  shows "\<exists>n'. applyCommit now index n = Inr (Some errFailedToApply, n') \<and> commit n' = commit n"
proof -
  let ?n2 = "if state (n\<lparr>commit := index\<rparr>) = Leader
             then n\<lparr>commit := index, acks := (acks (n\<lparr>commit := index\<rparr>))(index := None)\<rparr>
             else n\<lparr>commit := index\<rparr>"
  have ld2: "loadEntry index ?n2 = Inr (Inr (Some ae))"
    using ld by (simp add: loadEntry_def)
  obtain c' n3 where ae: "applyEntries now (ae_entries ae) [] ?n2 = Inr (c', n3)"
    using applyEntries_total [OF ok] by blast
  have c': "c' = deliverable (ae_entries ae)"
    using applyEntries_committed [OF ae] by simp
  have fr: "n3 = ?n2\<lparr>csz := csz n3, qn := qn n3, peers := peers n3, peersFile := peersFile n3\<rparr>"
    using applyEntries_frame [OF ae] .
  have ch: "applyc n3 = applyc n" "applycCap n3 = applycCap n"
    by (subst fr, simp)+
  have "applyCommit now index n = Inr (Some errFailedToApply, n3\<lparr>commit := commit n\<rparr>)"
    using gt ld2 ae c' nonempty full ch
    by (simp add: applyCommit_def Let_def not_le [symmetric] trySend_def)
  then show ?thesis by simp
qed

text \<open>
  C4. \<^verbatim>\<open>applyCommit(index)\<close> for an index at most \<open>commit\<close> returns nil and changes
  nothing. For an index above \<open>commit\<close>: when the log cannot load the record, it returns
  \<^verbatim>\<open>errEntryLoadFailed\<close> with \<open>commit\<close> as before; when the loaded batch has a normal
  or snapshot entry and the apply channel is full (and the batch's peer-state entries
  decode), it returns \<^verbatim>\<open>errFailedToApply\<close> with \<open>commit\<close> as before. Whenever it
  returns an error, \<open>commit\<close> is as before.
\<close>

theorem applyCommit_failure_keeps_commit:
  "(index \<le> commit n \<longrightarrow> applyCommit now index n = Inr (None, n)) \<and>
   (commit n < index \<and> isl (LoadMsg (wal n) index) \<longrightarrow>
      (\<exists>n'. applyCommit now index n = Inr (Some errEntryLoadFailed, n') \<and>
            commit n' = commit n)) \<and>
   (commit n < index \<and> loadEntry index n = Inr (Inr (Some ae)) \<and>
    peerStatesDecode (ae_entries ae) \<and> deliverable (ae_entries ae) \<noteq> [] \<and>
    applycCap n \<le> length (applyc n) \<longrightarrow>
      (\<exists>n'. applyCommit now index n = Inr (Some errFailedToApply, n') \<and>
            commit n' = commit n)) \<and>
   (applyCommit now index n = Inr (Some err, m) \<longrightarrow> commit m = commit n)"
  using applyCommit_already [of index n now] applyCommit_load_failed [of n index now]
    applyCommit_channel_full [of n index ae now]
    applyCommit_error_keeps_commit [of now index n err m]
  by blast

theorem applyCommit_failure_keeps_commit_witness:
  "applyCommit 0 0 nodeFull = Inr (None, nodeFull) \<and>
   (\<exists>n'. applyCommit 0 2 nodeFull = Inr (Some errEntryLoadFailed, n') \<and> commit n' = 0) \<and>
   (\<exists>n'. applyCommit 0 1 nodeFull = Inr (Some errFailedToApply, n') \<and> commit n' = 0)"
proof -
  have c: "commit nodeFull = 0" "applycCap nodeFull \<le> length (applyc nodeFull)"
    by (simp_all add: nodeFull_def node0_def)
  have l2: "isl (LoadMsg (wal nodeFull) 2)"
    by (simp add: nodeFull_def node0_def walX_def LoadMsg_def)
  have l1: "loadEntry 1 nodeFull =
              Inr (Inr (Some (aeX\<lparr>ae_reply := [], ae_buf := Some (ae_encode aeX)\<rparr>)))"
    by code_simp
  have d: "peerStatesDecode (ae_entries (aeX\<lparr>ae_reply := [], ae_buf := Some (ae_encode aeX)\<rparr>))"
      "deliverable (ae_entries (aeX\<lparr>ae_reply := [], ae_buf := Some (ae_encode aeX)\<rparr>)) \<noteq> []"
    by (simp_all add: aeX_def peerStatesDecode_def deliverable_def)
  from applyCommit_failure_keeps_commit [where index = 0 and n = nodeFull and now = 0]
    applyCommit_failure_keeps_commit [where index = 2 and n = nodeFull and now = 0]
    applyCommit_failure_keeps_commit
      [where index = 1 and n = nodeFull and now = 0
         and ae = "aeX\<lparr>ae_reply := [], ae_buf := Some (ae_encode aeX)\<rparr>"]
    c l2 l1 d
  show ?thesis by simp
qed

section \<open>Runs of the apply loop\<close>

lemma applyCommit_step:
  assumes gt: "commit n < index"
    and ok: "appliesCleanly (wal n) index"
    and room: "length (applyc n) + length (recordAt (wal n) index) \<le> applycCap n"
  shows "\<exists>n1. applyCommit now index n = Inr (None, n1) \<and> commit n1 = index \<and>
           wal n1 = wal n \<and> applyc n1 = applyc n @ recordAt (wal n) index \<and>
           applycCap n1 = applycCap n \<and> curTerm n1 = curTerm n \<and> paused n1 = paused n"
proof -
  obtain msg ae where msg: "LoadMsg (wal n) index = Inr msg"
    and dec: "decodeAppendEntry msg [] [] = Inr (Some ae)"
    and psd: "peerStatesDecode (ae_entries ae)"
    using ok by (auto simp: appliesCleanly_def split: sum.splits option.splits)
  have rec: "recordAt (wal n) index =
               (if deliverable (ae_entries ae) = [] then []
                else [Some \<lparr>Index = index, Entries = deliverable (ae_entries ae)\<rparr>])"
    by (simp add: recordAt_def msg dec)
  let ?n2 = "if state (n\<lparr>commit := index\<rparr>) = Leader
             then n\<lparr>commit := index, acks := (acks (n\<lparr>commit := index\<rparr>))(index := None)\<rparr>
             else n\<lparr>commit := index\<rparr>"
  have ld2: "loadEntry index ?n2 = Inr (Inr (Some ae))"
    using msg dec by (simp add: loadEntry_def)
  obtain c' n3 where ae: "applyEntries now (ae_entries ae) [] ?n2 = Inr (c', n3)"
    using applyEntries_total [OF psd] by blast
  have c': "c' = deliverable (ae_entries ae)"
    using applyEntries_committed [OF ae] by simp
  have fr: "n3 = ?n2\<lparr>csz := csz n3, qn := qn n3, peers := peers n3, peersFile := peersFile n3\<rparr>"
    using applyEntries_frame [OF ae] .
  have ch: "applyc n3 = applyc n" "applycCap n3 = applycCap n" "wal n3 = wal n"
      "commit n3 = index" "curTerm n3 = curTerm n" "paused n3 = paused n"
    by (subst fr, simp)+
  show ?thesis
  proof (cases "deliverable (ae_entries ae) = []")
    case True
    have "applyCommit now index n = Inr (None, n3\<lparr>applied := index\<rparr>)"
      using gt ld2 ae c' True
      by (simp add: applyCommit_def Let_def not_le [symmetric])
    then show ?thesis
      using True ch by (simp add: rec)
  next
    case False
    let ?r = "Some \<lparr>Index = index, Entries = deliverable (ae_entries ae)\<rparr>"
    have lt: "length (applyc n) < applycCap n"
      using room False by (simp add: rec)
    have "applyCommit now index n = Inr (None, n3\<lparr>applyc := applyc n @ [?r]\<rparr>)"
      using gt ld2 ae c' False lt ch
      by (simp add: applyCommit_def Let_def not_le [symmetric] trySend_def)
    then show ?thesis
      using False ch by (simp add: rec)
  qed
qed

lemma unat_succ: "(i :: u64) \<noteq> - 1 \<Longrightarrow> unat (i + 1) = Suc (unat i)"
  by (metis Suc_eq_plus1 add.commute eq_neg_iff_add_eq_0 unatSuc)

lemma less_not_max: "(i :: u64) < hi \<Longrightarrow> i \<noteq> - 1"
  by (metis word_order.extremum_strict)

lemma indexRange_empty: "hi \<noteq> - 1 \<Longrightarrow> indexRange (hi + 1) hi = []"
  by (simp add: indexRange_def unat_succ)

lemma succ_le: "(i :: u64) < hi \<Longrightarrow> i + 1 \<le> hi"
  by (simp add: word_le_nat_alt word_less_nat_alt unat_succ less_not_max)

lemma indexRange_Cons:
  assumes "i < hi"
  shows "indexRange (i + 1) hi = (i + 1) # indexRange (i + 1 + 1) hi \<or> hi = - 1"
proof (cases "hi = - 1")
  case True
  then show ?thesis by simp
next
  case hi: False
  have i: "unat (i + 1) = Suc (unat i)"
    using assms by (simp add: unat_succ less_not_max)
  have le: "unat i < unat hi" using assms by (simp add: word_less_nat_alt)
  have "i + 1 \<le> hi" using assms by (rule succ_le)
  with hi have "i + 1 \<noteq> - 1"
    by (metis word_order.extremum_uniqueI)
  then have "unat (i + 1 + 1) = Suc (unat (i + 1))"
    by (rule unat_succ)
  then have ii: "unat (i + 1 + 1) = Suc (Suc (unat i))"
    by (simp only: i)
  have "[Suc (unat i) ..< Suc (unat hi)] = Suc (unat i) # [Suc (Suc (unat i)) ..< Suc (unat hi)]"
    using le by (simp add: upt_conv_Cons)
  moreover have "(of_nat (Suc (unat i)) :: u64) = i + 1"
    by simp
  ultimately have "indexRange (i + 1) hi = (i + 1) # indexRange (i + 1 + 1) hi"
    unfolding indexRange_def i ii by simp
  then show ?thesis by simp
qed

lemma applyCommits_run:
  assumes "hi \<noteq> - 1" "commit n \<le> hi"
    and "list_all (appliesCleanly (wal n)) (indexRange (commit n + 1) hi)"
    and "length (applyc n) + length (concat (map (recordAt (wal n)) (indexRange (commit n + 1) hi)))
           \<le> applycCap n"
  shows "\<exists>n'. applyCommits now (commit n + 1) hi n = Inr n' \<and> commit n' = hi \<and>
           wal n' = wal n \<and> applycCap n' = applycCap n \<and> curTerm n' = curTerm n \<and>
           paused n' = paused n \<and>
           applyc n' = applyc n @ concat (map (recordAt (wal n)) (indexRange (commit n + 1) hi))"
  using assms
proof (induction "unat hi - unat (commit n)" arbitrary: n)
  case 0
  then have eq: "commit n = hi"
    by (simp add: word_le_nat_alt word_unat_eq_iff)
  have "\<not> hi + 1 \<le> hi"
    using \<open>hi \<noteq> - 1\<close> by (simp add: word_le_nat_alt unat_succ)
  then have "applyCommits now (hi + 1) hi n = Inr n"
    by (subst applyCommits.simps) simp
  then show ?case
    using eq \<open>hi \<noteq> - 1\<close> by (simp add: indexRange_empty)
next
  case (Suc k)
  let ?i = "commit n + 1"
  have lt: "commit n < hi"
    using Suc.hyps(2) by (simp add: word_less_nat_alt)
  have i_le: "?i \<le> hi" using lt by (rule succ_le)
  have i_gt: "commit n < ?i"
    using lt by (simp add: word_less_nat_alt unat_succ less_not_max)
  have i_ne: "?i \<noteq> - 1"
    using i_le \<open>hi \<noteq> - 1\<close> by (metis word_order.extremum_uniqueI)
  have rng: "indexRange ?i hi = ?i # indexRange (?i + 1) hi"
    using indexRange_Cons [OF lt] \<open>hi \<noteq> - 1\<close> by simp
  have ok: "appliesCleanly (wal n) ?i"
    and oks: "list_all (appliesCleanly (wal n)) (indexRange (?i + 1) hi)"
    using Suc.prems(3) by (simp_all add: rng)
  have room: "length (applyc n) + length (recordAt (wal n) ?i) \<le> applycCap n"
    using Suc.prems(4) by (simp add: rng)
  obtain n1 where n1: "applyCommit now ?i n = Inr (None, n1)" "commit n1 = ?i"
      "wal n1 = wal n" "applyc n1 = applyc n @ recordAt (wal n) ?i" "applycCap n1 = applycCap n"
      "curTerm n1 = curTerm n" "paused n1 = paused n"
    using applyCommit_step [OF i_gt ok room] by blast
  have k: "k = unat hi - unat (commit n1)"
    using Suc.hyps(2) lt by (simp add: n1(2) unat_succ less_not_max)
  have "\<exists>n'. applyCommits now (commit n1 + 1) hi n1 = Inr n' \<and> commit n' = hi \<and>
           wal n' = wal n1 \<and> applycCap n' = applycCap n1 \<and> curTerm n' = curTerm n1 \<and>
           paused n' = paused n1 \<and>
           applyc n' = applyc n1 @
             concat (map (recordAt (wal n1)) (indexRange (commit n1 + 1) hi))"
  proof (rule Suc.hyps(1) [OF k \<open>hi \<noteq> - 1\<close>])
    show "commit n1 \<le> hi" using i_le by (simp add: n1(2))
    show "list_all (appliesCleanly (wal n1)) (indexRange (commit n1 + 1) hi)"
      using oks by (simp add: n1(2,3))
    show "length (applyc n1) +
            length (concat (map (recordAt (wal n1)) (indexRange (commit n1 + 1) hi)))
          \<le> applycCap n1"
      using Suc.prems(4) by (simp add: n1 rng)
  qed
  then obtain n' where n': "applyCommits now (?i + 1) hi n1 = Inr n'" "commit n' = hi"
      "wal n' = wal n" "applycCap n' = applycCap n" "curTerm n' = curTerm n"
      "paused n' = paused n"
      "applyc n' = applyc n @ recordAt (wal n) ?i @
                     concat (map (recordAt (wal n)) (indexRange (?i + 1) hi))"
    by (auto simp: n1)
  have "applyCommits now ?i hi n = applyCommits now (?i + 1) hi n1"
    using i_le i_ne n1(1) by (subst applyCommits.simps) simp
  with n' show ?case
    by (simp add: rng)
qed

end
